theory Spec2Isabelle
  imports Main
begin

section \<open>Data model\<close>

text \<open>
  The scripts \<^verbatim>\<open>scripts/fbi/hate_crime/table5/preprocess.py\<close> and
  \<^verbatim>\<open>scripts/fbi/hate_crime/table8/preprocess.py\<close> work on Python dicts whose
  keys are strings and whose values are JSON strings or \<^verbatim>\<open>null\<close> (the
  configuration), or the cells that \<^verbatim>\<open>csv.DictReader\<close> yields (a string, or
  \<^verbatim>\<open>None\<close> for a cell missing from a short row). A Python \<^verbatim>\<open>str\<close> is a
  list of characters; a character stands for a code point below 256.
\<close>

datatype pyval = PNone | PStr string

text \<open>
  A dict keeps its keys in insertion order, so it is an association list; a lookup reads
  the first pair with the key, and a store to a key that is present keeps its place.
\<close>

type_synonym pydict = "(string \<times> pyval) list"

datatype error = KeyError pyval | ValueError | TypeError | IndexError | AttributeError

definition dict_get :: "(string \<times> 'v) list \<Rightarrow> string \<Rightarrow> 'v option" where
  "dict_get d k = map_of d k"

definition dict_mem :: "string \<Rightarrow> (string \<times> 'v) list \<Rightarrow> bool" where
  "dict_mem k d = (k \<in> fst ` set d)"

text \<open>\<^verbatim>\<open>d[k] = v\<close>\<close>

fun dict_set :: "pydict \<Rightarrow> string \<Rightarrow> pyval \<Rightarrow> pydict" where
  "dict_set [] k v = [(k, v)]"
| "dict_set ((k', v') # d) k v =
     (if k' = k then (k, v) # d else (k', v') # dict_set d k v)"

text \<open>\<^verbatim>\<open>d.update(other)\<close>: one store per pair of \<open>other\<close>, in its order.\<close>

fun dict_update :: "pydict \<Rightarrow> pydict \<Rightarrow> pydict" where
  "dict_update d [] = d"
| "dict_update d ((k, v) # other) = dict_update (dict_set d k v) other"

text \<open>\<^verbatim>\<open>d.get(k, None)\<close>\<close>

definition dict_get_default_None :: "pydict \<Rightarrow> string \<Rightarrow> pyval" where
  "dict_get_default_None d k = (case dict_get d k of None \<Rightarrow> PNone | Some v \<Rightarrow> v)"

text \<open>
  One entry of \<^verbatim>\<open>config['dpv']\<close>, \<^verbatim>\<open>{'cprop': P, 'dpv': {'prop': Q, 'val': y}}\<close>;
  the inner dict is flattened into the fields \<open>dpv_prop\<close> and \<open>dpv_val\<close>.
\<close>

record dpv_spec =
  cprop :: string
  dpv_prop :: string
  dpv_val :: pyval

text \<open>
  The configuration loaded from \<^verbatim>\<open>config.json\<close>: its three top-level keys are the
  fields; the keys below \<^verbatim>\<open>populationType\<close> and \<^verbatim>\<open>pvs\<close> are looked up, and a
  missing one raises. The templates and property/value dicts are of type \<open>'t\<close>: the
  dict itself (\<open>pydict\<close>) where only its contents matter, its address in a store
  where the claim is about which object is written.
\<close>

record 't config =
  populationType :: "(string \<times> 't) list"
  pvs :: "(string \<times> 't) list"
  dpv :: "dpv_spec list"

section \<open>Dependent property values\<close>

text \<open>
  \<^verbatim>\<open>_get_dpv\<close>: the loop over \<^verbatim>\<open>config['dpv']\<close>; each rule appends its
  dependent property to \<^verbatim>\<open>ignore_props\<close> or leaves the list as it is.
\<close>

text \<open>The two tests of the loop body together: the rule appends its dependent property.\<close>

definition dpv_fires :: "pydict \<Rightarrow> dpv_spec \<Rightarrow> bool" where
  "dpv_fires statvar spec =
     (dict_mem (cprop spec) statvar \<and>
      dpv_val spec = dict_get_default_None statvar (dpv_prop spec))"

fun get_dpv_loop :: "pydict \<Rightarrow> dpv_spec list \<Rightarrow> string list \<Rightarrow> string list" where
  "get_dpv_loop statvar [] ignore_props = ignore_props"
| "get_dpv_loop statvar (spec # specs) ignore_props =
     get_dpv_loop statvar specs
       (if dict_mem (cprop spec) statvar then
          (if dpv_val spec = dict_get_default_None statvar (dpv_prop spec)
           then ignore_props @ [dpv_prop spec] else ignore_props)
        else ignore_props)"

definition get_dpv :: "pydict \<Rightarrow> 't config \<Rightarrow> string list" where
  "get_dpv statvar cfg = get_dpv_loop statvar (dpv cfg) []"

section \<open>Statvars of one row\<close>

text \<open>
  \<^verbatim>\<open>get_statvar_dcid\<close> is imported from \<^verbatim>\<open>util/statvar_dcid_generator\<close>, which is
  not part of these scripts: the functions that call it take it as a parameter.
\<close>

type_synonym dcid_gen = "pydict \<Rightarrow> string list \<Rightarrow> string"

text \<open>\<^verbatim>\<open>_update_statvars\<close>\<close>

definition update_statvars :: "pydict list \<Rightarrow> pydict \<Rightarrow> pydict list" where
  "update_statvars statvar_list key_value = map (\<lambda>d. dict_update d key_value) statvar_list"

text \<open>\<^verbatim>\<open>_update_statvar_dcids\<close>\<close>

definition update_statvar_dcids :: "dcid_gen \<Rightarrow> pydict list \<Rightarrow> 't config \<Rightarrow> pydict list" where
  "update_statvar_dcids get_statvar_dcid statvar_list cfg =
     map (\<lambda>d. dict_set d ''Node'' (PStr (get_statvar_dcid d (get_dpv d cfg)))) statvar_list"

section \<open>The observation writer\<close>

text \<open>
  The \<^verbatim>\<open>csv.DictWriter\<close> is the list of the rows written so far; a row is the dict
  with the three \<^verbatim>\<open>OUTPUT_COLUMNS\<close>.
\<close>

record out_row =
  Year :: pyval
  StatVar :: pyval
  Quantity :: pyval

type_synonym csv_writer = "out_row list"

text \<open>\<^verbatim>\<open>_write_row\<close>\<close>

definition write_row :: "pyval \<Rightarrow> pyval \<Rightarrow> pyval \<Rightarrow> csv_writer \<Rightarrow> csv_writer" where
  "write_row year statvar_dcid quantity writer =
     writer @ [\<lparr>Year = year, StatVar = statvar_dcid, Quantity = quantity\<rparr>]"

text \<open>
  The \<^verbatim>\<open>csv.DictReader\<close> of a file with a header line: its field names and the
  dicts it yields, one per data row.
\<close>

record csv_reader =
  fieldnames :: "string list"
  rows :: "pydict list"

text \<open>\<^verbatim>\<open>columns.remove(x)\<close>: the first occurrence goes; \<^verbatim>\<open>ValueError\<close> when there is none.\<close>

definition list_remove :: "string \<Rightarrow> string list \<Rightarrow> error + string list" where
  "list_remove x xs = (if x \<in> set xs then Inr (remove1 x xs) else Inl ValueError)"

text \<open>
  \<^verbatim>\<open>for c in columns: statvar = {**config['populationType'][c]}; statvar_list.append(statvar)\<close>
\<close>

fun copy_templates :: "pydict config \<Rightarrow> string list \<Rightarrow> error + pydict list" where
  "copy_templates cfg [] = Inr []"
| "copy_templates cfg (c # cs) =
     (case dict_get (populationType cfg) c of
        None \<Rightarrow> Inl (KeyError (PStr c))
      | Some template \<Rightarrow>
          (case copy_templates cfg cs of
             Inl e \<Rightarrow> Inl e
           | Inr statvar_list \<Rightarrow> Inr (template # statvar_list)))"

text \<open>
  \<^verbatim>\<open>for idx, c in enumerate(columns): _write_row(crime['Year'], statvar_list[idx]['Node'], crime[c], writer)\<close>.
  A row that raises leaves the rows written before it in the writer.
\<close>

fun write_rows :: "pydict \<Rightarrow> string list \<Rightarrow> pydict list \<Rightarrow> csv_writer \<Rightarrow> csv_writer \<times> (error + unit)" where
  "write_rows crime [] statvar_list writer = (writer, Inr ())"
| "write_rows crime (c # cs) [] writer =
     (case dict_get crime ''Year'' of
        None \<Rightarrow> (writer, Inl (KeyError (PStr ''Year'')))
      | Some year \<Rightarrow> (writer, Inl IndexError))"
| "write_rows crime (c # cs) (statvar # statvar_list) writer =
     (case dict_get crime ''Year'' of
        None \<Rightarrow> (writer, Inl (KeyError (PStr ''Year'')))
      | Some year \<Rightarrow>
          (case dict_get statvar ''Node'' of
             None \<Rightarrow> (writer, Inl (KeyError (PStr ''Node'')))
           | Some dcid \<Rightarrow>
               (case dict_get crime c of
                  None \<Rightarrow> (writer, Inl (KeyError (PStr c)))
                | Some quantity \<Rightarrow>
                    write_rows crime cs statvar_list (write_row year dcid quantity writer))))"

text \<open>\<^verbatim>\<open>config['pvs'][bias_motivation]\<close>: a label that is no key raises \<^verbatim>\<open>KeyError\<close>.\<close>

definition pvs_lookup :: "'t config \<Rightarrow> pyval \<Rightarrow> error + 't" where
  "pvs_lookup cfg bias_motivation =
     (case bias_motivation of
        PNone \<Rightarrow> Inl (KeyError PNone)
      | PStr label \<Rightarrow>
          (case dict_get (pvs cfg) label of
             None \<Rightarrow> Inl (KeyError (PStr label))
           | Some key_value \<Rightarrow> Inr key_value))"

text \<open>The body of the loop \<^verbatim>\<open>for crime in reader\<close> of \<^verbatim>\<open>_write_output_csv\<close>.\<close>

definition write_output_csv_row ::
  "dcid_gen \<Rightarrow> pydict config \<Rightarrow> string list \<Rightarrow> pydict \<Rightarrow> csv_writer
     \<Rightarrow> csv_writer \<times> (error + pydict list)" where
  "write_output_csv_row gen cfg cols crime writer =
     (case dict_get crime ''bias motivation'' of
        None \<Rightarrow> (writer, Inl (KeyError (PStr ''bias motivation'')))
      | Some bias_motivation \<Rightarrow>
          (case pvs_lookup cfg bias_motivation of
             Inl e \<Rightarrow> (writer, Inl e)
           | Inr bias_motivation_key_value \<Rightarrow>
               (case copy_templates cfg cols of
                  Inl e \<Rightarrow> (writer, Inl e)
                | Inr statvar_list0 \<Rightarrow>
                    (let statvar_list1 = update_statvars statvar_list0 bias_motivation_key_value;
                         statvar_list = update_statvar_dcids gen statvar_list1 cfg
                     in case write_rows crime cols statvar_list writer of
                          (writer', Inl e) \<Rightarrow> (writer', Inl e)
                        | (writer', Inr u) \<Rightarrow> (writer', Inr statvar_list)))))"

fun write_output_csv_loop ::
  "dcid_gen \<Rightarrow> pydict config \<Rightarrow> string list \<Rightarrow> pydict list \<Rightarrow> csv_writer \<Rightarrow> pydict list
     \<Rightarrow> csv_writer \<times> (error + pydict list)" where
  "write_output_csv_loop gen cfg cols [] writer statvars = (writer, Inr statvars)"
| "write_output_csv_loop gen cfg cols (crime # crimes) writer statvars =
     (case write_output_csv_row gen cfg cols crime writer of
        (writer', Inl e) \<Rightarrow> (writer', Inl e)
      | (writer', Inr statvar_list) \<Rightarrow>
          write_output_csv_loop gen cfg cols crimes writer' (statvars @ statvar_list))"

text \<open>\<^verbatim>\<open>_write_output_csv\<close> of table 5: the fact columns are the reader's field names
  without \<^verbatim>\<open>'bias motivation'\<close> and \<^verbatim>\<open>'Year'\<close>.\<close>

definition write_output_csv ::
  "dcid_gen \<Rightarrow> csv_reader \<Rightarrow> csv_writer \<Rightarrow> pydict config \<Rightarrow> csv_writer \<times> (error + pydict list)" where
  "write_output_csv gen reader writer cfg =
     (case list_remove ''bias motivation'' (fieldnames reader) of
        Inl e \<Rightarrow> (writer, Inl e)
      | Inr columns1 \<Rightarrow>
          (case list_remove ''Year'' columns1 of
             Inl e \<Rightarrow> (writer, Inl e)
           | Inr columns \<Rightarrow> write_output_csv_loop gen cfg columns (rows reader) writer []))"

text \<open>\<^verbatim>\<open>_write_output_csv\<close> of table 8 names its seven fact columns itself, in this order,
  and otherwise runs the same statements per row.\<close>

definition table8_columns :: "string list" where
  "table8_columns =
     [''total incidents'', ''individual'', ''business'', ''government'',
      ''religious organization'', ''society'', ''other/unknown/multiple'']"

definition write_output_csv_table8 ::
  "dcid_gen \<Rightarrow> csv_reader \<Rightarrow> csv_writer \<Rightarrow> pydict config \<Rightarrow> csv_writer \<times> (error + pydict list)" where
  "write_output_csv_table8 gen reader writer cfg =
     write_output_csv_loop gen cfg table8_columns (rows reader) writer []"

text \<open>
  \<^verbatim>\<open>_create_csv_mcf\<close>: the header row, then every input file in turn. The files are
  given as their readers.
\<close>

definition output_header :: out_row where
  "output_header = \<lparr>Year = PStr ''Year'', StatVar = PStr ''StatVar'', Quantity = PStr ''Quantity''\<rparr>"

fun create_csv_mcf_loop ::
  "dcid_gen \<Rightarrow> csv_reader list \<Rightarrow> csv_writer \<Rightarrow> pydict config \<Rightarrow> pydict list
     \<Rightarrow> csv_writer \<times> (error + pydict list)" where
  "create_csv_mcf_loop gen [] writer cfg statvars = (writer, Inr statvars)"
| "create_csv_mcf_loop gen (reader # readers) writer cfg statvars =
     (case write_output_csv gen reader writer cfg of
        (writer', Inl e) \<Rightarrow> (writer', Inl e)
      | (writer', Inr statvars_list) \<Rightarrow>
          create_csv_mcf_loop gen readers writer' cfg (statvars @ statvars_list))"

definition create_csv_mcf ::
  "dcid_gen \<Rightarrow> csv_reader list \<Rightarrow> pydict config \<Rightarrow> csv_writer \<times> (error + pydict list)" where
  "create_csv_mcf gen csv_files cfg = create_csv_mcf_loop gen csv_files [output_header] cfg []"

section \<open>The metadata serializer\<close>

text \<open>\<^verbatim>\<open>f'{v}'\<close>\<close>

fun py_str :: "pyval \<Rightarrow> string" where
  "py_str PNone = ''None''"
| "py_str (PStr s) = s"

text \<open>\<^verbatim>\<open>sep.join(xs)\<close>\<close>

fun join :: "string \<Rightarrow> string list \<Rightarrow> string" where
  "join sep [] = []"
| "join sep [x] = x"
| "join sep (x # y # ys) = x @ sep @ join sep (y # ys)"

definition NL :: string where
  "NL = [CHR 0x0A]"

text \<open>\<^verbatim>\<open>for p, v in sv.items(): if p != 'Node': statvar_mcf_list.append(f'{p}: dcs:{v}')\<close>\<close>

fun statvar_mcf_list :: "pydict \<Rightarrow> string list" where
  "statvar_mcf_list [] = []"
| "statvar_mcf_list ((p, v) # sv) =
     (if p \<noteq> ''Node'' then (p @ '': dcs:'' @ py_str v) # statvar_mcf_list sv
      else statvar_mcf_list sv)"

text \<open>
  \<^verbatim>\<open>_create_mcf\<close>: the loop with its two variables \<^verbatim>\<open>dcid_set\<close> and
  \<^verbatim>\<open>final_mcf\<close>; the result is the text written to the file. A statvar without
  \<^verbatim>\<open>'Node'\<close> raises \<^verbatim>\<open>KeyError\<close>, and a \<^verbatim>\<open>'Node'\<close> that is no string
  raises \<^verbatim>\<open>TypeError\<close> at \<^verbatim>\<open>'Node: dcid:' + dcid\<close>.
\<close>

fun create_mcf_loop :: "pydict list \<Rightarrow> pyval set \<Rightarrow> string \<Rightarrow> error + string" where
  "create_mcf_loop [] dcid_set final_mcf = Inr final_mcf"
| "create_mcf_loop (sv # stat_vars) dcid_set final_mcf =
     (case dict_get sv ''Node'' of
        None \<Rightarrow> Inl (KeyError (PStr ''Node''))
      | Some dcid \<Rightarrow>
          if dcid \<in> dcid_set then create_mcf_loop stat_vars dcid_set final_mcf
          else
            (case dcid of
               PNone \<Rightarrow> Inl TypeError
             | PStr s \<Rightarrow>
                 create_mcf_loop stat_vars (insert dcid dcid_set)
                   (final_mcf @ (''Node: dcid:'' @ s @ NL @ join NL (statvar_mcf_list sv)) @ NL @ NL)))"

definition create_mcf :: "pydict list \<Rightarrow> error + string" where
  "create_mcf stat_vars = create_mcf_loop stat_vars {} []"

section \<open>The contract of the identifier generator\<close>

text \<open>
  What the callers rely on: a property on the ignore list has no influence on the
  identifier, so the identifier is the one of the statvar without its ignored properties.
\<close>

definition ignores_props :: "dcid_gen \<Rightarrow> bool" where
  "ignores_props gen = (\<forall>d ig. gen d ig = gen (filter (\<lambda>kv. fst kv \<notin> set ig) d) [])"

text \<open>The statvar that is otherwise the same and lacks the property \<open>k\<close>.\<close>

definition dict_without :: "string \<Rightarrow> pydict \<Rightarrow> pydict" where
  "dict_without k d = filter (\<lambda>kv. fst kv \<noteq> k) d"

text \<open>
  A generator that keeps the contract, for the concrete runs below: it writes the
  properties that are not ignored, in the statvar's order.
\<close>

definition sample_dcid :: dcid_gen where
  "sample_dcid d ig =
     concat (map (\<lambda>kv. fst kv @ ''='' @ py_str (snd kv) @ '';'')
               (filter (\<lambda>kv. fst kv \<notin> set ig) d))"

section \<open>The metadata format\<close>

text \<open>
  The words of the specification for the metadata file, to compare \<^verbatim>\<open>_create_mcf\<close>
  with. The statvars that are written are the first of each \<^verbatim>\<open>Node\<close>, in the order
  of the list; a block is its lines, the header first, each ended by a newline; one blank
  line follows each block.
\<close>

definition has_node_id :: "pydict \<Rightarrow> bool" where
  "has_node_id sv = (case dict_get sv ''Node'' of Some (PStr s) \<Rightarrow> True | _ \<Rightarrow> False)"

definition node_id :: "pydict \<Rightarrow> string" where
  "node_id sv = (case dict_get sv ''Node'' of Some (PStr s) \<Rightarrow> s | _ \<Rightarrow> [])"

fun first_seen :: "pydict list \<Rightarrow> pydict list" where
  "first_seen [] = []"
| "first_seen (sv # svs) =
     sv # first_seen (filter (\<lambda>s. dict_get s ''Node'' \<noteq> dict_get sv ''Node'') svs)"

definition has_body :: "pydict \<Rightarrow> bool" where
  "has_body sv = (filter (\<lambda>pv. fst pv \<noteq> ''Node'') sv \<noteq> [])"

definition unlines :: "string list \<Rightarrow> string" where
  "unlines ls = concat (map (\<lambda>l. l @ NL) ls)"

definition mcf_block_lines :: "pydict \<Rightarrow> string list" where
  "mcf_block_lines sv =
     (''Node: dcid:'' @ node_id sv)
     # map (\<lambda>pv. fst pv @ '': dcs:'' @ py_str (snd pv)) (filter (\<lambda>pv. fst pv \<noteq> ''Node'') sv)"

definition mcf_format :: "pydict list \<Rightarrow> string" where
  "mcf_format stat_vars = concat (map (\<lambda>sv. unlines (mcf_block_lines sv) @ NL) (first_seen stat_vars))"

text \<open>The text that \<^verbatim>\<open>_create_mcf\<close> appends for one statvar.\<close>

definition mcf_block :: "pydict \<Rightarrow> string" where
  "mcf_block sv = ''Node: dcid:'' @ node_id sv @ NL @ join NL (statvar_mcf_list sv) @ NL @ NL"

section \<open>The observations of a table\<close>

text \<open>
  The words of the specification for the cleaned CSV: the observation of a source row and a
  fact column carries the row's \<^verbatim>\<open>Year\<close>, the \<^verbatim>\<open>Node\<close> of the statvar built for
  the column, and the row's cell of the column as it is. The observations of a table are
  those of its rows in source order and, within a row, of the columns in their order
  (\<open>List.product\<close> lists the pairs in this order), one statvar per observation.
\<close>

definition is_observation :: "pydict \<Rightarrow> string \<Rightarrow> pydict \<Rightarrow> out_row \<Rightarrow> bool" where
  "is_observation crime c statvar r =
     (dict_get crime ''Year'' = Some (Year r) \<and>
      dict_get statvar ''Node'' = Some (StatVar r) \<and>
      dict_get crime c = Some (Quantity r))"

definition observations_of :: "pydict list \<Rightarrow> string list \<Rightarrow> pydict list \<Rightarrow> out_row list \<Rightarrow> bool" where
  "observations_of crimes cols statvars obs =
     (length statvars = length crimes * length cols \<and>
      list_all2 (\<lambda>cs r. is_observation (fst (fst cs)) (snd (fst cs)) (snd cs) r)
        (zip (List.product crimes cols) statvars) obs)"

text \<open>The fact columns of the specification: all but \<^verbatim>\<open>'bias motivation'\<close> and \<^verbatim>\<open>'Year'\<close>.\<close>

definition fact_columns :: "csv_reader \<Rightarrow> string list" where
  "fact_columns reader = filter (\<lambda>c. c \<noteq> ''bias motivation'' \<and> c \<noteq> ''Year'') (fieldnames reader)"

section \<open>Example tables\<close>

text \<open>A configuration and input tables in the shape of the scripts' own, for the concrete runs.\<close>

definition example_config :: "pydict config" where
  "example_config =
     \<lparr>populationType =
        [(''white'', [(''offenderRace'', PStr ''White'')]),
         (''asian'', [(''offenderRace'', PStr ''Asian'')])],
      pvs =
        [(''Race'', [(''biasMotivation'', PStr ''race''), (''targetedRace'', PStr ''Any'')]),
         (''Religion'', [(''biasMotivation'', PStr ''religion'')])],
      dpv = [\<lparr>cprop = ''biasMotivation'', dpv_prop = ''targetedRace'', dpv_val = PStr ''Any''\<rparr>]\<rparr>"

definition example_reader :: "string \<Rightarrow> csv_reader" where
  "example_reader year =
     \<lparr>fieldnames = [''Year'', ''bias motivation'', ''white'', ''asian''],
      rows = [[(''Year'', PStr year), (''bias motivation'', PStr ''Race''),
               (''white'', PStr ''10''), (''asian'', PStr ''2'')],
              [(''Year'', PStr year), (''bias motivation'', PStr ''Religion''),
               (''white'', PStr ''7''), (''asian'', PStr '''')]]\<rparr>"

definition example_config_table8 :: "pydict config" where
  "example_config_table8 =
     \<lparr>populationType =
        [(''total incidents'', [(''measuredProperty'', PStr ''count'')]),
         (''individual'', [(''victimType'', PStr ''Person'')]),
         (''business'', [(''victimType'', PStr ''Business'')]),
         (''government'', [(''victimType'', PStr ''Government'')]),
         (''religious organization'', [(''victimType'', PStr ''ReligiousOrganization'')]),
         (''society'', [(''victimType'', PStr ''Society'')]),
         (''other/unknown/multiple'', [(''victimType'', PStr ''Other'')])],
      pvs = [(''Race'', [(''biasMotivation'', PStr ''race'')])],
      dpv = []\<rparr>"

definition example_reader_table8 :: csv_reader where
  "example_reader_table8 =
     \<lparr>fieldnames = [''Year'', ''bias motivation'', ''total incidents'', ''individual'', ''business'',
        ''government'', ''religious organization'', ''society'', ''other/unknown/multiple''],
      rows = [[(''Year'', PStr ''2019''), (''bias motivation'', PStr ''Race''),
               (''total incidents'', PStr ''21''), (''individual'', PStr ''6''),
               (''business'', PStr ''5''), (''government'', PStr ''4''),
               (''religious organization'', PStr ''3''), (''society'', PStr ''2''),
               (''other/unknown/multiple'', PStr ''1'')]]\<rparr>"

section \<open>The schema normalizer\<close>

text \<open>
  The dataframe read from a year's spreadsheet: its column names and its rows, each as long
  as the list of columns. A cell is a string, a count, or \<^verbatim>\<open>NaN\<close> for an empty cell.
\<close>

datatype cell = CStr string | CNum int | CNaN

record dataframe =
  df_columns :: "string list"
  df_rows :: "cell list list"

text \<open>
  The character classes of the two patterns. On code points below 256, \<^verbatim>\<open>\d\<close> matches the
  ten digits, and \<^verbatim>\<open>\s\<close> matches what \<^verbatim>\<open>str.isspace\<close> accepts, which is also what
  \<^verbatim>\<open>str.strip()\<close> removes.
\<close>

definition is_digit_or_colon :: "char \<Rightarrow> bool" where
  "is_digit_or_colon c = (c \<in> set ''0123456789:'')"

definition is_space :: "char \<Rightarrow> bool" where
  "is_space c =
     (c \<in> set [CHR 0x09, CHR 0x0A, CHR 0x0B, CHR 0x0C, CHR 0x0D, CHR 0x1C, CHR 0x1D, CHR 0x1E,
               CHR 0x1F, CHR 0x20, CHR 0x85, CHR 0xA0])"

text \<open>
  \<^verbatim>\<open>re.sub('[...]+', repl, s)\<close> for a pattern that is one character class repeated: from
  left to right, each longest run of characters of the class is replaced by \<open>repl\<close>.
\<close>

function re_sub_runs :: "(char \<Rightarrow> bool) \<Rightarrow> string \<Rightarrow> string \<Rightarrow> string" where
  "re_sub_runs cls repl [] = []"
| "re_sub_runs cls repl (c # cs) =
     (if cls c then repl @ re_sub_runs cls repl (dropWhile cls cs)
      else c # re_sub_runs cls repl cs)"
  by pat_completeness auto
termination
  by (relation "measure (\<lambda>(cls, repl, s). length s)")
     (auto simp: length_dropWhile_le less_Suc_eq_le)

text \<open>\<^verbatim>\<open>s.strip()\<close>\<close>

definition py_strip :: "string \<Rightarrow> string" where
  "py_strip s = rev (dropWhile is_space (rev (dropWhile is_space s)))"

text \<open>
  \<^verbatim>\<open>Series.replace(pattern, repl, regex=True)\<close> rewrites the strings of the column and leaves
  the other cells; \<^verbatim>\<open>Series.str.strip()\<close> strips the strings and yields \<^verbatim>\<open>NaN\<close> for
  the other cells.
\<close>

definition series_replace :: "(char \<Rightarrow> bool) \<Rightarrow> string \<Rightarrow> cell \<Rightarrow> cell" where
  "series_replace cls repl x = (case x of CStr s \<Rightarrow> CStr (re_sub_runs cls repl s) | _ \<Rightarrow> x)"

definition str_strip :: "cell \<Rightarrow> cell" where
  "str_strip x = (case x of CStr s \<Rightarrow> CStr (py_strip s) | _ \<Rightarrow> CNaN)"

text \<open>\<^verbatim>\<open>df[name] = f(df[name])\<close>, row by row.\<close>

fun map_column :: "string \<Rightarrow> (cell \<Rightarrow> cell) \<Rightarrow> string list \<Rightarrow> cell list \<Rightarrow> cell list" where
  "map_column name f (c # cs) (x # xs) = (if c = name then f x else x) # map_column name f cs xs"
| "map_column name f cs xs = xs"

definition assign_column :: "string \<Rightarrow> (cell \<Rightarrow> cell) \<Rightarrow> dataframe \<Rightarrow> dataframe" where
  "assign_column name f df = df\<lparr>df_rows := map (map_column name f (df_columns df)) (df_rows df)\<rparr>"

text \<open>
  \<^verbatim>\<open>df[name]\<close> as the list of its cells. The \<^verbatim>\<open>.str\<close> accessor raises
  \<^verbatim>\<open>AttributeError\<close> on a column that is not of object dtype: one that has cells and no
  string among them.
\<close>

fun column_row :: "string \<Rightarrow> string list \<Rightarrow> cell list \<Rightarrow> cell list" where
  "column_row name (c # cs) (x # xs) = (if c = name then x # column_row name cs xs else column_row name cs xs)"
| "column_row name cs xs = []"

definition column_values :: "string \<Rightarrow> dataframe \<Rightarrow> cell list" where
  "column_values name df = concat (map (column_row name (df_columns df)) (df_rows df))"

definition is_str :: "cell \<Rightarrow> bool" where
  "is_str x = (case x of CStr s \<Rightarrow> True | _ \<Rightarrow> False)"

definition str_accessor_ok :: "string \<Rightarrow> dataframe \<Rightarrow> bool" where
  "str_accessor_ok name df = (column_values name df = [] \<or> list_ex is_str (column_values name df))"

text \<open>\<^verbatim>\<open>df.columns = names\<close>: \<^verbatim>\<open>ValueError\<close> when the number of names is not that of the columns.\<close>

definition set_columns :: "string list \<Rightarrow> dataframe \<Rightarrow> error + dataframe" where
  "set_columns names df =
     (if length names = length (df_columns df) then Inr (df\<lparr>df_columns := names\<rparr>) else Inl ValueError)"

text \<open>The three assignments to \<^verbatim>\<open>df['bias motivation']\<close>, shared by both scripts.\<close>

definition clean_bias_motivation :: "dataframe \<Rightarrow> error + dataframe" where
  "clean_bias_motivation df =
     (let df1 = assign_column ''bias motivation'' (series_replace is_digit_or_colon []) df;
          df2 = assign_column ''bias motivation'' (series_replace is_space '' '') df1
      in if str_accessor_ok ''bias motivation'' df2
         then Inr (assign_column ''bias motivation'' str_strip df2)
         else Inl AttributeError)"

text \<open>\<^verbatim>\<open>_clean_dataframe\<close> of table 5.\<close>

definition years_2013_2020 :: "string list" where
  "years_2013_2020 = [''2020'', ''2019'', ''2018'', ''2017'', ''2016'', ''2015'', ''2014'', ''2013'']"

definition columns_2013_2020 :: "string list" where
  "columns_2013_2020 =
     [''bias motivation'', ''total offenses'', ''white'', ''black or african american'',
      ''american indian or alaska native'', ''asian'',
      ''native hawaiian or other pacific islander'', ''multiple races'',
      ''unknown race'', ''hispanic or latino'', ''not hispanic or latino'',
      ''group of multiple ethnicities'', ''unknown ethnicity'', ''unknown offender'']"

definition columns_2004_2012 :: "string list" where
  "columns_2004_2012 =
     [''bias motivation'', ''total offenses'', ''white'',
      ''black or african american'', ''american indian or alaska native'',
      ''asian or pacific islander'', ''multiple races'', ''unknown race'',
      ''unknown offender'']"

definition clean_dataframe :: "dataframe \<Rightarrow> string \<Rightarrow> error + dataframe" where
  "clean_dataframe df year =
     (case (if year \<in> set years_2013_2020 then set_columns columns_2013_2020 df
            else set_columns columns_2004_2012 df) of
        Inl e \<Rightarrow> Inl e
      | Inr df' \<Rightarrow> clean_bias_motivation df')"

text \<open>\<^verbatim>\<open>_clean_dataframe\<close> of table 8: one layout, the year is not read.\<close>

definition clean_dataframe_table8 :: "dataframe \<Rightarrow> string \<Rightarrow> error + dataframe" where
  "clean_dataframe_table8 df year =
     (case set_columns (''bias motivation'' # table8_columns) df of
        Inl e \<Rightarrow> Inl e
      | Inr df' \<Rightarrow> clean_bias_motivation df')"

text \<open>The keys of \<^verbatim>\<open>YEARWISE_CONFIG\<close>, the years the scripts process.\<close>

definition yearwise_config_years :: "string list" where
  "yearwise_config_years =
     [''2020'', ''2019'', ''2018'', ''2017'', ''2016'', ''2015'', ''2014'', ''2013'', ''2012'',
      ''2011'', ''2010'', ''2009'', ''2008'', ''2007'', ''2006'', ''2005'', ''2004'']"

text \<open>
  The cleanup of a label in the words of the specification: every digit and colon removed,
  then every run of whitespace written as one space, then the whitespace at both ends
  removed. A row of the cleaned table is the source row with its first cell, the label,
  cleaned; a label that is no string becomes \<^verbatim>\<open>NaN\<close>.
\<close>

definition clean_label :: "string \<Rightarrow> string" where
  "clean_label s = py_strip (re_sub_runs is_space '' '' (filter (\<lambda>c. \<not> is_digit_or_colon c) s))"

fun clean_row :: "cell list \<Rightarrow> cell list" where
  "clean_row [] = []"
| "clean_row (x # xs) = (case x of CStr s \<Rightarrow> CStr (clean_label s) | _ \<Rightarrow> CNaN) # xs"

section \<open>Statvars as objects in a store\<close>

text \<open>
  In Python a dict is an object, and \<^verbatim>\<open>d.update(...)\<close> and \<^verbatim>\<open>d['Node'] = ...\<close> write to
  the object that \<open>d\<close> refers to. To say which objects a row writes, the same statements
  are modelled once more over a store: an object has an address, the store maps the
  addresses below \<open>lim\<close> to the contents of the objects made so far, and the configuration
  holds the addresses of its templates and property/value dicts.
\<close>

type_synonym addr = nat

record store =
  objects :: "addr \<Rightarrow> pydict"
  lim :: addr

text \<open>A new dict object with the given contents, as \<^verbatim>\<open>{**template}\<close> makes one.\<close>

definition store_alloc :: "pydict \<Rightarrow> store \<Rightarrow> addr \<times> store" where
  "store_alloc d s = (lim s, \<lparr>objects = (objects s)(lim s := d), lim = Suc (lim s)\<rparr>)"

text \<open>A write to the object at an address.\<close>

definition store_put :: "addr \<Rightarrow> pydict \<Rightarrow> store \<Rightarrow> store" where
  "store_put a d s = s\<lparr>objects := (objects s)(a := d)\<rparr>"

text \<open>
  \<^verbatim>\<open>for c in columns: statvar = {**config['populationType'][c]}; statvar_list.append(statvar)\<close>:
  the list holds the addresses of the copies.
\<close>

fun copy_templates_in_store ::
  "addr config \<Rightarrow> string list \<Rightarrow> store \<Rightarrow> store \<times> (error + addr list)" where
  "copy_templates_in_store cfg [] s = (s, Inr [])"
| "copy_templates_in_store cfg (c # cs) s =
     (case dict_get (populationType cfg) c of
        None \<Rightarrow> (s, Inl (KeyError (PStr c)))
      | Some template \<Rightarrow>
          (case store_alloc (objects s template) s of
             (statvar, s1) \<Rightarrow>
               (case copy_templates_in_store cfg cs s1 of
                  (s2, Inl e) \<Rightarrow> (s2, Inl e)
                | (s2, Inr statvar_list) \<Rightarrow> (s2, Inr (statvar # statvar_list)))))"

text \<open>\<^verbatim>\<open>_update_statvars\<close>: \<^verbatim>\<open>d.update(key_value)\<close> writes to the object \<open>d\<close>.\<close>

fun update_statvars_in_store :: "addr list \<Rightarrow> addr \<Rightarrow> store \<Rightarrow> store" where
  "update_statvars_in_store [] key_value s = s"
| "update_statvars_in_store (d # statvar_list) key_value s =
     update_statvars_in_store statvar_list key_value
       (store_put d (dict_update (objects s d) (objects s key_value)) s)"

text \<open>\<^verbatim>\<open>_update_statvar_dcids\<close>: \<^verbatim>\<open>d['Node'] = dcid\<close> writes to the object \<open>d\<close>.\<close>

fun update_statvar_dcids_in_store :: "dcid_gen \<Rightarrow> addr list \<Rightarrow> addr config \<Rightarrow> store \<Rightarrow> store" where
  "update_statvar_dcids_in_store gen [] cfg s = s"
| "update_statvar_dcids_in_store gen (d # statvar_list) cfg s =
     update_statvar_dcids_in_store gen statvar_list cfg
       (store_put d
          (dict_set (objects s d) ''Node'' (PStr (gen (objects s d) (get_dpv (objects s d) cfg)))) s)"

text \<open>The loop body, the loop and the two \<^verbatim>\<open>_write_output_csv\<close> over the store.\<close>

definition write_output_csv_row_in_store ::
  "dcid_gen \<Rightarrow> addr config \<Rightarrow> string list \<Rightarrow> pydict \<Rightarrow> store \<Rightarrow> csv_writer
     \<Rightarrow> store \<times> csv_writer \<times> (error + addr list)" where
  "write_output_csv_row_in_store gen cfg cols crime s writer =
     (case dict_get crime ''bias motivation'' of
        None \<Rightarrow> (s, writer, Inl (KeyError (PStr ''bias motivation'')))
      | Some bias_motivation \<Rightarrow>
          (case pvs_lookup cfg bias_motivation of
             Inl e \<Rightarrow> (s, writer, Inl e)
           | Inr bias_motivation_key_value \<Rightarrow>
               (case copy_templates_in_store cfg cols s of
                  (s1, Inl e) \<Rightarrow> (s1, writer, Inl e)
                | (s1, Inr statvar_list) \<Rightarrow>
                    (let s2 = update_statvars_in_store statvar_list bias_motivation_key_value s1;
                         s3 = update_statvar_dcids_in_store gen statvar_list cfg s2
                     in case write_rows crime cols (map (objects s3) statvar_list) writer of
                          (writer', Inl e) \<Rightarrow> (s3, writer', Inl e)
                        | (writer', Inr u) \<Rightarrow> (s3, writer', Inr statvar_list)))))"

fun write_output_csv_loop_in_store ::
  "dcid_gen \<Rightarrow> addr config \<Rightarrow> string list \<Rightarrow> pydict list \<Rightarrow> store \<Rightarrow> csv_writer \<Rightarrow> addr list
     \<Rightarrow> store \<times> csv_writer \<times> (error + addr list)" where
  "write_output_csv_loop_in_store gen cfg cols [] s writer statvars = (s, writer, Inr statvars)"
| "write_output_csv_loop_in_store gen cfg cols (crime # crimes) s writer statvars =
     (case write_output_csv_row_in_store gen cfg cols crime s writer of
        (s', writer', Inl e) \<Rightarrow> (s', writer', Inl e)
      | (s', writer', Inr statvar_list) \<Rightarrow>
          write_output_csv_loop_in_store gen cfg cols crimes s' writer' (statvars @ statvar_list))"

definition write_output_csv_in_store ::
  "dcid_gen \<Rightarrow> csv_reader \<Rightarrow> store \<Rightarrow> csv_writer \<Rightarrow> addr config
     \<Rightarrow> store \<times> csv_writer \<times> (error + addr list)" where
  "write_output_csv_in_store gen reader s writer cfg =
     (case list_remove ''bias motivation'' (fieldnames reader) of
        Inl e \<Rightarrow> (s, writer, Inl e)
      | Inr columns1 \<Rightarrow>
          (case list_remove ''Year'' columns1 of
             Inl e \<Rightarrow> (s, writer, Inl e)
           | Inr columns \<Rightarrow>
               write_output_csv_loop_in_store gen cfg columns (rows reader) s writer []))"

definition write_output_csv_table8_in_store ::
  "dcid_gen \<Rightarrow> csv_reader \<Rightarrow> store \<Rightarrow> csv_writer \<Rightarrow> addr config
     \<Rightarrow> store \<times> csv_writer \<times> (error + addr list)" where
  "write_output_csv_table8_in_store gen reader s writer cfg =
     write_output_csv_loop_in_store gen cfg table8_columns (rows reader) s writer []"

text \<open>
  The configuration read through the store: each address replaced by the contents of its
  object. The statvars a run returns, read in the same way.
\<close>

definition config_contents :: "store \<Rightarrow> addr config \<Rightarrow> pydict config" where
  "config_contents s cfg =
     \<lparr>populationType = map (\<lambda>ka. (fst ka, objects s (snd ka))) (populationType cfg),
      pvs = map (\<lambda>ka. (fst ka, objects s (snd ka))) (pvs cfg),
      dpv = dpv cfg\<rparr>"

definition read_statvars :: "store \<Rightarrow> error + addr list \<Rightarrow> error + pydict list" where
  "read_statvars s r = (case r of Inl e \<Rightarrow> Inl e | Inr statvars \<Rightarrow> Inr (map (objects s) statvars))"

text \<open>
  The configuration was loaded before the run: its dicts are objects of the store. No object
  below an address has changed between two stores.
\<close>

definition allocated :: "store \<Rightarrow> addr config \<Rightarrow> bool" where
  "allocated s cfg =
     (list_all (\<lambda>ka. snd ka < lim s) (populationType cfg) \<and>
      list_all (\<lambda>ka. snd ka < lim s) (pvs cfg))"

definition unchanged_below :: "addr \<Rightarrow> store \<Rightarrow> store \<Rightarrow> bool" where
  "unchanged_below n s s' = list_all (\<lambda>a. objects s' a = objects s a) [0..<n]"

text \<open>The example configuration as four objects of a store.\<close>

definition example_store :: store where
  "example_store =
     \<lparr>objects = (\<lambda>a. [])
        (0 := [(''offenderRace'', PStr ''White'')],
         1 := [(''offenderRace'', PStr ''Asian'')],
         2 := [(''biasMotivation'', PStr ''race''), (''targetedRace'', PStr ''Any'')],
         3 := [(''biasMotivation'', PStr ''religion'')]),
      lim = 4\<rparr>"

definition example_config_in_store :: "addr config" where
  "example_config_in_store =
     \<lparr>populationType = [(''white'', 0), (''asian'', 1)],
      pvs = [(''Race'', 2), (''Religion'', 3)],
      dpv = [\<lparr>cprop = ''biasMotivation'', dpv_prop = ''targetedRace'', dpv_val = PStr ''Any''\<rparr>]\<rparr>"

section \<open>Complete tables\<close>

text \<open>
  A row is complete for a configuration and a list of fact columns when it has a year, a
  cell for every fact column, and a label that is a key of \<^verbatim>\<open>config['pvs']\<close>; a table is
  complete when every fact column has a template and every row is complete.
\<close>

definition row_complete :: "pydict config \<Rightarrow> string list \<Rightarrow> pydict \<Rightarrow> bool" where
  "row_complete cfg cols crime =
     (dict_mem ''Year'' crime \<and> list_all (\<lambda>c. dict_mem c crime) cols \<and>
      (case dict_get crime ''bias motivation'' of
         Some (PStr label) \<Rightarrow> dict_mem label (pvs cfg)
       | _ \<Rightarrow> False))"

definition table_complete :: "pydict config \<Rightarrow> string list \<Rightarrow> pydict list \<Rightarrow> bool" where
  "table_complete cfg cols crimes =
     (list_all (\<lambda>c. dict_mem c (populationType cfg)) cols \<and> list_all (row_complete cfg cols) crimes)"

section \<open>Properties of the dependent-property filter\<close>

lemma get_dpv_loop_filter:
  "get_dpv_loop statvar specs acc = acc @ map dpv_prop (filter (dpv_fires statvar) specs)"
  by (induction specs arbitrary: acc) (simp_all add: dpv_fires_def)

lemma get_dpv_filter:
  "get_dpv statvar cfg = map dpv_prop (filter (dpv_fires statvar) (dpv cfg))"
  by (simp add: get_dpv_def get_dpv_loop_filter)

lemma get_dpv_loop_append:
  "get_dpv_loop statvar (pre @ post) acc = get_dpv_loop statvar post (get_dpv_loop statvar pre acc)"
  by (induction pre arbitrary: acc) simp_all

text \<open>
  C10. A rule whose controlling property is in the statvar and whose dependent property is
  not: the absent property reads as \<^verbatim>\<open>None\<close>, so the rule appends its dependent
  property to the ignore list when its required value is \<^verbatim>\<open>None\<close>, and appends
  nothing when the required value is a string. This holds for the rule at any position of
  \<^verbatim>\<open>config['dpv']\<close>, the rules before and after it contributing what they
  contribute alone.
\<close>

theorem get_dpv_absent_dependent:
  assumes "dict_mem (cprop spec) statvar"
    and "\<not> dict_mem (dpv_prop spec) statvar"
    and "dpv cfg = pre @ spec # post"
  shows "get_dpv statvar cfg =
           get_dpv_loop statvar pre []
           @ (if dpv_val spec = PNone then [dpv_prop spec] else [])
           @ get_dpv_loop statvar post []"
proof -
  have "dict_get statvar (dpv_prop spec) = None"
    using assms(2) by (simp add: dict_get_def dict_mem_def map_of_eq_None_iff)
  then have "dpv_fires statvar spec = (dpv_val spec = PNone)"
    using assms(1) by (simp add: dpv_fires_def dict_get_default_None_def)
  then show ?thesis
    by (simp add: get_dpv_def assms(3) get_dpv_loop_filter)
qed

theorem get_dpv_absent_dependent_witness:
  "get_dpv [(''biasMotivation'', PStr ''race'')]
     \<lparr>populationType = [], pvs = [],
      dpv = [\<lparr>cprop = ''biasMotivation'', dpv_prop = ''victimType'', dpv_val = PNone\<rparr>,
             \<lparr>cprop = ''biasMotivation'', dpv_prop = ''offenderType'', dpv_val = PStr ''Person''\<rparr>]\<rparr>
   = [''victimType'']"
  using get_dpv_absent_dependent [of
      "\<lparr>cprop = ''biasMotivation'', dpv_prop = ''offenderType'', dpv_val = PStr ''Person''\<rparr>"
      "[(''biasMotivation'', PStr ''race'')]"
      "\<lparr>populationType = [], pvs = [],
        dpv = [\<lparr>cprop = ''biasMotivation'', dpv_prop = ''victimType'', dpv_val = PNone\<rparr>,
               \<lparr>cprop = ''biasMotivation'', dpv_prop = ''offenderType'', dpv_val = PStr ''Person''\<rparr>]\<rparr>"
      "[\<lparr>cprop = ''biasMotivation'', dpv_prop = ''victimType'', dpv_val = PNone\<rparr>]"
      "[]"]
  by (simp add: dict_mem_def dict_get_def dict_get_default_None_def)

section \<open>Identifiers and dependent properties\<close>

lemma sample_dcid_ignores_props: "ignores_props sample_dcid"
  by (simp add: ignores_props_def sample_dcid_def)

lemma dict_get_dict_set_same: "dict_get (dict_set d k v) k = Some v"
  by (induction d) (auto simp: dict_get_def)

lemma dict_mem_without: "k \<noteq> q \<Longrightarrow> dict_mem k (dict_without q d) = dict_mem k d"
  by (auto simp: dict_mem_def dict_without_def)

lemma dict_get_without: "k \<noteq> q \<Longrightarrow> dict_get (dict_without q d) k = dict_get d k"
  by (induction d) (auto simp: dict_get_def dict_without_def)

lemma dpv_fires_without:
  "cprop r \<noteq> q \<Longrightarrow> dpv_prop r \<noteq> q \<Longrightarrow> dpv_fires (dict_without q d) r = dpv_fires d r"
  by (simp add: dpv_fires_def dict_mem_without dict_get_without dict_get_default_None_def)

lemma mem_get_dpv:
  "q \<in> set (get_dpv d cfg) \<longleftrightarrow> (\<exists>r \<in> set (dpv cfg). dpv_prop r = q \<and> dpv_fires d r)"
  by (auto simp: get_dpv_filter)

lemma get_dpv_without:
  assumes "\<forall>r \<in> set (dpv cfg). cprop r \<noteq> q" and "k \<noteq> q"
  shows "k \<in> set (get_dpv (dict_without q d) cfg) \<longleftrightarrow> k \<in> set (get_dpv d cfg)"
  using assms by (auto simp: mem_get_dpv dpv_fires_without)

text \<open>
  C1, as the code has it. The statvar holds the controlling property \<open>P\<close> of a rule of
  \<^verbatim>\<open>config['dpv']\<close> and the rule's dependent property \<open>Q\<close> with the required value.
  When no rule of the configuration has \<open>Q\<close> as its own controlling property, and the
  generator ignores what it is told to ignore, \<^verbatim>\<open>_update_statvar_dcids\<close> stores the
  same \<^verbatim>\<open>Node\<close> in this statvar and in the one that lacks \<open>Q\<close>. And a property is on
  the list of \<^verbatim>\<open>_get_dpv\<close> exactly when some rule of the configuration names it as
  dependent property, has its controlling property in the statvar, and requires the value
  that \<^verbatim>\<open>statvar.get(prop, None)\<close> reads.
\<close>

theorem dpv_exclusion:
  assumes contract: "ignores_props gen"
    and rule: "spec \<in> set (dpv cfg)"
    and P: "dict_mem (cprop spec) statvar"
    and Q: "dict_get statvar (dpv_prop spec) = Some (dpv_val spec)"
    and chain: "\<forall>r \<in> set (dpv cfg). cprop r \<noteq> dpv_prop spec"
  shows "map (\<lambda>d. dict_get d ''Node'') (update_statvar_dcids gen [statvar] cfg) =
         map (\<lambda>d. dict_get d ''Node'')
           (update_statvar_dcids gen [dict_without (dpv_prop spec) statvar] cfg)
       \<and> (\<forall>q. q \<in> set (get_dpv statvar cfg) \<longleftrightarrow>
              (\<exists>r \<in> set (dpv cfg). dpv_prop r = q \<and> dict_mem (cprop r) statvar \<and>
                  dpv_val r = dict_get_default_None statvar q))"
proof
  let ?q = "dpv_prop spec"
  let ?d' = "dict_without ?q statvar"
  have fires: "dpv_fires statvar spec"
    using P Q by (simp add: dpv_fires_def dict_get_default_None_def)
  then have inl: "?q \<in> set (get_dpv statvar cfg)"
    using rule by (auto simp: mem_get_dpv)
  have "filter (\<lambda>kv. fst kv \<notin> set (get_dpv statvar cfg)) statvar =
        filter (\<lambda>kv. fst kv \<notin> set (get_dpv ?d' cfg) \<and> fst kv \<noteq> ?q) statvar"
  proof (rule filter_cong [OF refl])
    fix kv assume "kv \<in> set statvar"
    show "(fst kv \<notin> set (get_dpv statvar cfg)) =
          (fst kv \<notin> set (get_dpv ?d' cfg) \<and> fst kv \<noteq> ?q)"
      using inl get_dpv_without [OF chain, of "fst kv" statvar] by (cases "fst kv = ?q") auto
  qed
  then have "filter (\<lambda>kv. fst kv \<notin> set (get_dpv statvar cfg)) statvar =
        filter (\<lambda>kv. fst kv \<notin> set (get_dpv ?d' cfg)) ?d'"
    by (simp add: dict_without_def conj_commute)
  then have "gen statvar (get_dpv statvar cfg) = gen ?d' (get_dpv ?d' cfg)"
    using contract unfolding ignores_props_def by metis
  then show "map (\<lambda>d. dict_get d ''Node'') (update_statvar_dcids gen [statvar] cfg) =
         map (\<lambda>d. dict_get d ''Node'') (update_statvar_dcids gen [?d'] cfg)"
    by (simp add: update_statvar_dcids_def dict_get_dict_set_same)
next
  show "\<forall>q. q \<in> set (get_dpv statvar cfg) \<longleftrightarrow>
              (\<exists>r \<in> set (dpv cfg). dpv_prop r = q \<and> dict_mem (cprop r) statvar \<and>
                  dpv_val r = dict_get_default_None statvar q)"
    by (auto simp: mem_get_dpv dpv_fires_def)
qed

theorem dpv_exclusion_witness:
  "map (\<lambda>d. dict_get d ''Node'')
     (update_statvar_dcids sample_dcid
        [[(''populationType'', PStr ''CriminalIncidents''), (''biasMotivation'', PStr ''gender''),
          (''victimType'', PStr ''Person'')]]
        \<lparr>populationType = [], pvs = [],
         dpv = [\<lparr>cprop = ''biasMotivation'', dpv_prop = ''victimType'', dpv_val = PStr ''Person''\<rparr>]\<rparr>)
   = [Some (PStr ''populationType=CriminalIncidents;biasMotivation=gender;'')]
   \<and> map (\<lambda>d. dict_get d ''Node'')
     (update_statvar_dcids sample_dcid
        [[(''populationType'', PStr ''CriminalIncidents''), (''biasMotivation'', PStr ''gender'')]]
        \<lparr>populationType = [], pvs = [],
         dpv = [\<lparr>cprop = ''biasMotivation'', dpv_prop = ''victimType'', dpv_val = PStr ''Person''\<rparr>]\<rparr>)
   = [Some (PStr ''populationType=CriminalIncidents;biasMotivation=gender;'')]"
  using dpv_exclusion [OF sample_dcid_ignores_props, of
      "\<lparr>cprop = ''biasMotivation'', dpv_prop = ''victimType'', dpv_val = PStr ''Person''\<rparr>"
      "\<lparr>populationType = [], pvs = [],
        dpv = [\<lparr>cprop = ''biasMotivation'', dpv_prop = ''victimType'', dpv_val = PStr ''Person''\<rparr>]\<rparr>"
      "[(''populationType'', PStr ''CriminalIncidents''), (''biasMotivation'', PStr ''gender''),
        (''victimType'', PStr ''Person'')]",
      THEN conjunct1]
  by (simp add: update_statvar_dcids_def sample_dcid_def get_dpv_def dict_mem_def dict_get_def
      dict_get_default_None_def dict_without_def)

text \<open>
  The claim as it is written fails in two places. With the rules \<open>P \<rightarrow> Q = y\<close> and
  \<open>Q \<rightarrow> R = z\<close>, the statvar \<open>{P: x, Q: y, R: z}\<close> has \<open>Q\<close> and \<open>R\<close> ignored, while the
  statvar without \<open>Q\<close> keeps \<open>R\<close>, since the second rule no longer finds its controlling
  property: the two identifiers differ. And with two rules for the same dependent property,
  \<open>P \<rightarrow> Q = y\<close> and \<open>S \<rightarrow> Q = w\<close>, the statvar \<open>{S: a, Q: w}\<close> has \<open>Q\<close> on the ignore
  list although \<open>P\<close> is absent.
\<close>

theorem dpv_exclusion_counterexample:
  "ignores_props sample_dcid
   \<and> map (\<lambda>d. dict_get d ''Node'')
       (update_statvar_dcids sample_dcid
          [[(''P'', PStr ''x''), (''Q'', PStr ''y''), (''R'', PStr ''z'')]]
          \<lparr>populationType = [], pvs = [],
           dpv = [\<lparr>cprop = ''P'', dpv_prop = ''Q'', dpv_val = PStr ''y''\<rparr>,
                  \<lparr>cprop = ''Q'', dpv_prop = ''R'', dpv_val = PStr ''z''\<rparr>]\<rparr>)
     = [Some (PStr ''P=x;'')]
   \<and> map (\<lambda>d. dict_get d ''Node'')
       (update_statvar_dcids sample_dcid
          [dict_without ''Q'' [(''P'', PStr ''x''), (''Q'', PStr ''y''), (''R'', PStr ''z'')]]
          \<lparr>populationType = [], pvs = [],
           dpv = [\<lparr>cprop = ''P'', dpv_prop = ''Q'', dpv_val = PStr ''y''\<rparr>,
                  \<lparr>cprop = ''Q'', dpv_prop = ''R'', dpv_val = PStr ''z''\<rparr>]\<rparr>)
     = [Some (PStr ''P=x;R=z;'')]
   \<and> get_dpv [(''S'', PStr ''a''), (''Q'', PStr ''w'')]
       \<lparr>populationType = [], pvs = [],
        dpv = [\<lparr>cprop = ''P'', dpv_prop = ''Q'', dpv_val = PStr ''y''\<rparr>,
               \<lparr>cprop = ''S'', dpv_prop = ''Q'', dpv_val = PStr ''w''\<rparr>]\<rparr>
     = [''Q'']"
  by (simp add: sample_dcid_ignores_props update_statvar_dcids_def sample_dcid_def get_dpv_def
      dict_mem_def dict_get_def dict_get_default_None_def dict_without_def)

section \<open>The metadata serializer writes each identifier once\<close>

lemma create_mcf_loop_blocks:
  "list_all has_node_id svs \<Longrightarrow>
   create_mcf_loop svs seen acc =
     Inr (acc @ concat (map mcf_block
        (first_seen (filter (\<lambda>s. dict_get s ''Node'' \<notin> Some ` seen) svs))))"
proof (induction svs arbitrary: seen acc)
  case Nil
  then show ?case by simp
next
  case (Cons sv svs)
  from Cons.prems obtain s where s: "dict_get sv ''Node'' = Some (PStr s)"
    by (auto simp: has_node_id_def split: option.splits pyval.splits)
  have rest: "list_all has_node_id svs" using Cons.prems by simp
  show ?case
  proof (cases "PStr s \<in> seen")
    case True
    then have "dict_get sv ''Node'' \<in> Some ` seen" using s by simp
    then show ?thesis using True s Cons.IH [OF rest, of seen acc] by simp
  next
    case False
    have f: "filter (\<lambda>x. dict_get x ''Node'' \<noteq> Some (PStr s))
               (filter (\<lambda>x. dict_get x ''Node'' \<notin> Some ` seen) svs) =
             filter (\<lambda>x. dict_get x ''Node'' \<notin> Some ` insert (PStr s) seen) svs"
      by (auto intro: filter_cong)
    have "dict_get sv ''Node'' \<notin> Some ` seen" using s False by auto
    then show ?thesis
      using False s Cons.IH [OF rest, of "insert (PStr s) seen"] f
      by (simp add: mcf_block_def node_id_def del: image_insert)
  qed
qed

lemma create_mcf_blocks:
  "list_all has_node_id svs \<Longrightarrow> create_mcf svs = Inr (concat (map mcf_block (first_seen svs)))"
  using create_mcf_loop_blocks [of svs "{}" "[]"] by (simp add: create_mcf_def)

lemma set_first_seen_subset: "set (first_seen svs) \<subseteq> set svs"
proof (induction svs rule: first_seen.induct)
  case 1 show ?case by simp
next
  case (2 sv svs) then show ?case by auto
qed

lemma nodes_first_seen:
  "(\<lambda>s. dict_get s ''Node'') ` set (first_seen svs) = (\<lambda>s. dict_get s ''Node'') ` set svs"
proof (induction svs rule: first_seen.induct)
  case 1 show ?case by simp
next
  case (2 sv svs) then show ?case by auto
qed

lemma distinct_first_seen: "distinct (map (\<lambda>s. dict_get s ''Node'') (first_seen svs))"
proof (induction svs rule: first_seen.induct)
  case 1 show ?case by simp
next
  case (2 sv svs)
  have "dict_get sv ''Node'' \<notin> (\<lambda>s. dict_get s ''Node'') ` set (first_seen (filter (\<lambda>s. dict_get s ''Node'' \<noteq> dict_get sv ''Node'') svs))"
    unfolding nodes_first_seen by auto
  then show ?case using 2 by simp
qed

lemma join_Cons: "xs \<noteq> [] \<Longrightarrow> join sep (x # xs) = x @ sep @ join sep xs"
  by (cases xs) simp_all

lemma statvar_mcf_list_eq:
  "statvar_mcf_list sv =
     map (\<lambda>pv. fst pv @ '': dcs:'' @ py_str (snd pv)) (filter (\<lambda>pv. fst pv \<noteq> ''Node'') sv)"
  by (induction sv) auto

lemma create_mcf_loop_skip:
  "dict_get sv ''Node'' = Some d \<Longrightarrow> d \<in> seen \<Longrightarrow>
   create_mcf_loop (mid @ sv # post) seen acc = create_mcf_loop (mid @ post) seen acc"
proof (induction mid arbitrary: seen acc)
  case Nil then show ?case by simp
next
  case (Cons m mid)
  then show ?case by (auto split: option.splits pyval.splits)
qed

lemma create_mcf_loop_dedup:
  "dict_get sv1 ''Node'' = dict_get sv2 ''Node'' \<Longrightarrow>
   create_mcf_loop (pre @ sv1 # mid @ sv2 # post) seen acc =
   create_mcf_loop (pre @ sv1 # mid @ post) seen acc"
proof (induction pre arbitrary: seen acc)
  case Nil
  then show ?case
    by (auto split: option.splits pyval.splits simp: create_mcf_loop_skip)
next
  case (Cons p pre)
  then show ?case by (auto split: option.splits pyval.splits)
qed


lemma has_node_id_get: "has_node_id sv \<Longrightarrow> dict_get sv ''Node'' = Some (PStr (node_id sv))"
  by (auto simp: has_node_id_def node_id_def split: option.splits pyval.splits)

lemma join_NL_unlines: "ls \<noteq> [] \<Longrightarrow> join NL ls @ NL = unlines ls"
  by (induction NL ls rule: join.induct) (simp_all add: unlines_def)

lemma mcf_block_unlines: "has_body sv \<Longrightarrow> mcf_block sv = unlines (mcf_block_lines sv) @ NL"
proof -
  assume "has_body sv"
  then have ne: "statvar_mcf_list sv \<noteq> []"
    by (simp add: has_body_def statvar_mcf_list_eq)
  have "mcf_block sv = (''Node: dcid:'' @ node_id sv) @ NL @ (join NL (statvar_mcf_list sv) @ NL) @ NL"
    by (simp add: mcf_block_def)
  also have "\<dots> = (''Node: dcid:'' @ node_id sv) @ NL @ unlines (statvar_mcf_list sv) @ NL"
    using join_NL_unlines [OF ne] by simp
  also have "\<dots> = unlines (mcf_block_lines sv) @ NL"
    by (simp add: unlines_def mcf_block_lines_def statvar_mcf_list_eq)
  finally show ?thesis .
qed

text \<open>
  C2, as the code has it. Every statvar carries a \<^verbatim>\<open>Node\<close> string and at least one
  other property. Then the text of \<^verbatim>\<open>_create_mcf\<close> is, for the first statvar of each
  identifier and in the order of the list, the header line \<^verbatim>\<open>Node: dcid:<identifier>\<close>,
  one line \<^verbatim>\<open><property>: dcs:<value>\<close> per other property in the dict's order, and one
  blank line; the identifiers of the blocks are distinct and are those of the list.
\<close>

theorem create_mcf_format:
  assumes ids: "list_all has_node_id stat_vars"
    and bodies: "list_all has_body stat_vars"
  shows "create_mcf stat_vars = Inr (mcf_format stat_vars)
       \<and> distinct (map node_id (first_seen stat_vars))
       \<and> set (map node_id (first_seen stat_vars)) = set (map node_id stat_vars)"
proof (intro conjI)
  have sub: "set (first_seen stat_vars) \<subseteq> set stat_vars"
    by (rule set_first_seen_subset)
  have blocks: "map mcf_block (first_seen stat_vars) =
        map (\<lambda>sv. unlines (mcf_block_lines sv) @ NL) (first_seen stat_vars)"
    using sub bodies by (auto simp: list_all_iff mcf_block_unlines)
  show "create_mcf stat_vars = Inr (mcf_format stat_vars)"
    by (simp only: create_mcf_blocks [OF ids] mcf_format_def blocks)
next
  have eq: "map (\<lambda>s. dict_get s ''Node'') (first_seen stat_vars) =
            map (\<lambda>s. Some (PStr s)) (map node_id (first_seen stat_vars))"
    using set_first_seen_subset [of stat_vars] ids
    by (auto simp: list_all_iff has_node_id_get)
  show "distinct (map node_id (first_seen stat_vars))"
    using distinct_first_seen [of stat_vars] unfolding eq
    by (auto simp: distinct_map inj_on_def)
next
  have "\<And>svs. list_all has_node_id svs \<Longrightarrow>
          (\<lambda>s. Some (PStr s)) ` set (map node_id svs) = (\<lambda>s. dict_get s ''Node'') ` set svs"
    by (auto simp: list_all_iff has_node_id_get image_iff)
  moreover have "list_all has_node_id (first_seen stat_vars)"
    using set_first_seen_subset [of stat_vars] ids by (auto simp: list_all_iff)
  ultimately have "(\<lambda>s. Some (PStr s)) ` set (map node_id (first_seen stat_vars)) =
                   (\<lambda>s. Some (PStr s)) ` set (map node_id stat_vars)"
    using ids nodes_first_seen [of stat_vars] by simp
  then show "set (map node_id (first_seen stat_vars)) = set (map node_id stat_vars)"
    by (simp add: inj_image_eq_iff inj_on_def)
qed

theorem create_mcf_format_witness:
  "create_mcf
     [[(''typeOf'', PStr ''StatisticalVariable''), (''biasMotivation'', PStr ''race''),
       (''Node'', PStr ''Count_CriminalIncidents_BiasMotivationRace'')],
      [(''typeOf'', PStr ''StatisticalVariable''), (''biasMotivation'', PStr ''religion''),
       (''Node'', PStr ''Count_CriminalIncidents_BiasMotivationReligion'')],
      [(''typeOf'', PStr ''StatisticalVariable''), (''biasMotivation'', PStr ''race''),
       (''Node'', PStr ''Count_CriminalIncidents_BiasMotivationRace'')]]
   = Inr (''Node: dcid:Count_CriminalIncidents_BiasMotivationRace'' @ NL @
          ''typeOf: dcs:StatisticalVariable'' @ NL @
          ''biasMotivation: dcs:race'' @ NL @ NL @
          ''Node: dcid:Count_CriminalIncidents_BiasMotivationReligion'' @ NL @
          ''typeOf: dcs:StatisticalVariable'' @ NL @
          ''biasMotivation: dcs:religion'' @ NL @ NL)"
  using create_mcf_format [of
     "[[(''typeOf'', PStr ''StatisticalVariable''), (''biasMotivation'', PStr ''race''),
       (''Node'', PStr ''Count_CriminalIncidents_BiasMotivationRace'')],
      [(''typeOf'', PStr ''StatisticalVariable''), (''biasMotivation'', PStr ''religion''),
       (''Node'', PStr ''Count_CriminalIncidents_BiasMotivationReligion'')],
      [(''typeOf'', PStr ''StatisticalVariable''), (''biasMotivation'', PStr ''race''),
       (''Node'', PStr ''Count_CriminalIncidents_BiasMotivationRace'')]]", THEN conjunct1]
  by (simp add: has_node_id_def has_body_def dict_get_def mcf_format_def mcf_block_lines_def
      unlines_def node_id_def)

text \<open>
  The claim as it is written, for every list of statvars, fails at a statvar whose only
  property is \<^verbatim>\<open>Node\<close>: the join of no lines is the empty string, so the header is
  followed by three newlines, and two blank lines stand between this block and the next.
\<close>

theorem create_mcf_format_counterexample:
  "create_mcf [[(''Node'', PStr ''a'')], [(''Node'', PStr ''b''), (''typeOf'', PStr ''StatisticalVariable'')]]
     = Inr (''Node: dcid:a'' @ NL @ NL @ NL @
            ''Node: dcid:b'' @ NL @ ''typeOf: dcs:StatisticalVariable'' @ NL @ NL)
   \<and> mcf_format [[(''Node'', PStr ''a'')], [(''Node'', PStr ''b''), (''typeOf'', PStr ''StatisticalVariable'')]]
     = ''Node: dcid:a'' @ NL @ NL @
       ''Node: dcid:b'' @ NL @ ''typeOf: dcs:StatisticalVariable'' @ NL @ NL
   \<and> create_mcf [[(''Node'', PStr ''a'')], [(''Node'', PStr ''b''), (''typeOf'', PStr ''StatisticalVariable'')]]
     \<noteq> Inr (mcf_format [[(''Node'', PStr ''a'')], [(''Node'', PStr ''b''), (''typeOf'', PStr ''StatisticalVariable'')]])"
  by (simp add: create_mcf_def dict_get_def mcf_format_def mcf_block_lines_def unlines_def
      node_id_def NL_def)

lemma create_mcf_loop_snoc:
  "has_node_id sv \<Longrightarrow>
   create_mcf_loop (svs @ [sv]) seen acc =
     (case create_mcf_loop svs seen acc of
        Inl e \<Rightarrow> Inl e
      | Inr text \<Rightarrow>
          Inr (if PStr (node_id sv) \<in> seen \<or>
                  dict_get sv ''Node'' \<in> (\<lambda>s. dict_get s ''Node'') ` set svs
               then text else text @ mcf_block sv))"
proof (induction svs arbitrary: seen acc)
  case Nil
  then show ?case
    by (simp add: has_node_id_get mcf_block_def)
next
  case (Cons sv0 svs)
  have n: "dict_get sv ''Node'' = Some (PStr (node_id sv))"
    using Cons.prems by (rule has_node_id_get)
  show ?case
  proof (cases "dict_get sv0 ''Node''")
    case None
    then show ?thesis by simp
  next
    case (Some d)
    show ?thesis
    proof (cases "d \<in> seen")
      case True
      have c: "(PStr (node_id sv) \<in> seen \<or>
               dict_get sv ''Node'' \<in> (\<lambda>s. dict_get s ''Node'') ` set (sv0 # svs)) =
            (PStr (node_id sv) \<in> seen \<or>
               dict_get sv ''Node'' \<in> (\<lambda>s. dict_get s ''Node'') ` set svs)"
        using True Some n by auto
      have l: "create_mcf_loop ((sv0 # svs) @ [sv]) seen acc = create_mcf_loop (svs @ [sv]) seen acc"
        using True Some by simp
      have r: "create_mcf_loop (sv0 # svs) seen acc = create_mcf_loop svs seen acc"
        using True Some by simp
      show ?thesis
        by (simp only: l r c Cons.IH [OF Cons.prems])
    next
      case False
      show ?thesis
      proof (cases d)
        case PNone
        then show ?thesis using False Some by simp
      next
        case (PStr x)
        let ?acc = "acc @ (''Node: dcid:'' @ x @ NL @ join NL (statvar_mcf_list sv0)) @ NL @ NL"
        have c: "(PStr (node_id sv) \<in> seen \<or>
                 dict_get sv ''Node'' \<in> (\<lambda>s. dict_get s ''Node'') ` set (sv0 # svs)) =
              (PStr (node_id sv) \<in> insert d seen \<or>
                 dict_get sv ''Node'' \<in> (\<lambda>s. dict_get s ''Node'') ` set svs)"
          using Some n by auto
        have l: "create_mcf_loop ((sv0 # svs) @ [sv]) seen acc =
                 create_mcf_loop (svs @ [sv]) (insert d seen) ?acc"
          using False Some PStr by simp
        have r: "create_mcf_loop (sv0 # svs) seen acc = create_mcf_loop svs (insert d seen) ?acc"
          using False Some PStr by simp
        show ?thesis
          by (simp only: l r c Cons.IH [OF Cons.prems])
      qed
    qed
  qed
qed

text \<open>
  C9. \<^verbatim>\<open>_create_mcf\<close> looks at the \<^verbatim>\<open>Node\<close> of a statvar and at nothing else to
  decide whether it is written. The empty list gives the empty text. A statvar with an
  identifier at the end of a list adds nothing to the text of the list before it when one
  of the earlier statvars has its \<^verbatim>\<open>Node\<close>, whatever the properties of the two are, and
  raises nothing; otherwise it adds its own block: its header and one line for each of its
  own other properties. So the block of an identifier is the one of the first statvar that
  carries it. And a statvar whose \<^verbatim>\<open>Node\<close> is that of an earlier statvar can be taken
  out of the list anywhere: the result, text or error, is the one of the list without it.
\<close>

theorem create_mcf_dedup_by_node:
  "create_mcf [] = Inr []
   \<and> (has_node_id sv \<longrightarrow>
        create_mcf (svs @ [sv]) =
          (case create_mcf svs of
             Inl e \<Rightarrow> Inl e
           | Inr text \<Rightarrow>
               Inr (if dict_get sv ''Node'' \<in> (\<lambda>s. dict_get s ''Node'') ` set svs then text
                    else text @ ''Node: dcid:'' @ node_id sv @ NL @
                      join NL (map (\<lambda>pv. fst pv @ '': dcs:'' @ py_str (snd pv))
                                 (filter (\<lambda>pv. fst pv \<noteq> ''Node'') sv)) @ NL @ NL)))
   \<and> (dict_get sv1 ''Node'' = dict_get sv2 ''Node'' \<longrightarrow>
        create_mcf (pre @ sv1 # mid @ sv2 # post) = create_mcf (pre @ sv1 # mid @ post))"
proof (intro conjI impI)
  show "create_mcf [] = Inr []"
    by (simp add: create_mcf_def)
next
  assume "has_node_id sv"
  from create_mcf_loop_snoc [OF this, of svs "{}" "[]"]
  show "create_mcf (svs @ [sv]) =
          (case create_mcf svs of
             Inl e \<Rightarrow> Inl e
           | Inr text \<Rightarrow>
               Inr (if dict_get sv ''Node'' \<in> (\<lambda>s. dict_get s ''Node'') ` set svs then text
                    else text @ ''Node: dcid:'' @ node_id sv @ NL @
                      join NL (map (\<lambda>pv. fst pv @ '': dcs:'' @ py_str (snd pv))
                                 (filter (\<lambda>pv. fst pv \<noteq> ''Node'') sv)) @ NL @ NL))"
    by (simp add: create_mcf_def mcf_block_def statvar_mcf_list_eq cong: sum.case_cong if_cong)
next
  assume "dict_get sv1 ''Node'' = dict_get sv2 ''Node''"
  then show "create_mcf (pre @ sv1 # mid @ sv2 # post) = create_mcf (pre @ sv1 # mid @ post)"
    by (simp add: create_mcf_def create_mcf_loop_dedup)
qed

theorem create_mcf_dedup_by_node_witness:
  "create_mcf
     [[(''Node'', PStr ''Count_Incidents''), (''victimType'', PStr ''Person'')],
      [(''Node'', PStr ''Count_Offenses''), (''victimType'', PStr ''Person'')],
      [(''Node'', PStr ''Count_Offenses''), (''victimType'', PStr ''Business'')]]
   = Inr (''Node: dcid:Count_Incidents'' @ NL @ ''victimType: dcs:Person'' @ NL @ NL @
          ''Node: dcid:Count_Offenses'' @ NL @ ''victimType: dcs:Person'' @ NL @ NL)
   \<and> create_mcf
     [[(''Node'', PStr ''Count_Incidents''), (''victimType'', PStr ''Person'')],
      [(''Node'', PStr ''Count_Offenses''), (''victimType'', PStr ''Person'')],
      [(''Node'', PStr ''Count_Offenses''), (''victimType'', PStr ''Business'')]]
   = create_mcf
     [[(''Node'', PStr ''Count_Incidents''), (''victimType'', PStr ''Person'')],
      [(''Node'', PStr ''Count_Offenses''), (''victimType'', PStr ''Person'')]]"
proof -
  let ?a = "[(''Node'', PStr ''Count_Incidents''), (''victimType'', PStr ''Person'')]"
  let ?b1 = "[(''Node'', PStr ''Count_Offenses''), (''victimType'', PStr ''Person'')]"
  let ?b2 = "[(''Node'', PStr ''Count_Offenses''), (''victimType'', PStr ''Business'')]"
  note th = create_mcf_dedup_by_node [where sv = ?b2 and svs = "[?a, ?b1]" and ?sv1.0 = ?b1
      and ?sv2.0 = ?b2 and pre = "[?a]" and mid = "[]" and post = "[]"]
  have two: "create_mcf [?a, ?b1] =
      Inr (''Node: dcid:Count_Incidents'' @ NL @ ''victimType: dcs:Person'' @ NL @ NL @
           ''Node: dcid:Count_Offenses'' @ NL @ ''victimType: dcs:Person'' @ NL @ NL)"
    by (simp add: create_mcf_def dict_get_def)
  have "has_node_id ?b2"
    by (simp add: has_node_id_def dict_get_def)
  with th [THEN conjunct2, THEN conjunct1]
  have "create_mcf ([?a, ?b1] @ [?b2]) = create_mcf [?a, ?b1]"
    by (simp add: two dict_get_def)
  then have three: "create_mcf [?a, ?b1, ?b2] = create_mcf [?a, ?b1]"
    by simp
  from th [THEN conjunct2, THEN conjunct2]
  have "create_mcf ([?a] @ ?b1 # [] @ ?b2 # []) = create_mcf ([?a] @ ?b1 # [] @ [])"
    by (simp add: dict_get_def)
  then show ?thesis using two three by simp
qed

section \<open>Row expansion\<close>

lemma copy_templates_length: "copy_templates cfg cols = Inr svs \<Longrightarrow> length svs = length cols"
  by (induction cols arbitrary: svs) (auto split: option.splits sum.splits)

lemma write_rows_obs:
  "write_rows crime cols svs w = (w', Inr u) \<Longrightarrow> length svs = length cols \<Longrightarrow>
   \<exists>obs. w' = w @ obs \<and>
     list_all2 (\<lambda>cs r. is_observation crime (fst cs) (snd cs) r) (zip cols svs) obs"
proof (induction crime cols svs w rule: write_rows.induct)
  case (1 crime statvar_list writer)
  then show ?case by simp
next
  case (2 crime c cs writer)
  then show ?case by simp
next
  case (3 crime c cs statvar statvar_list writer)
  from "3.prems"(1) obtain year dcid quantity where
    y: "dict_get crime ''Year'' = Some year" and n: "dict_get statvar ''Node'' = Some dcid"
    and q: "dict_get crime c = Some quantity"
    and rest: "write_rows crime cs statvar_list (write_row year dcid quantity writer) = (w', Inr u)"
    by (auto split: option.splits)
  from "3.IH" [OF y n q rest] "3.prems"(2) obtain obs where
    "w' = write_row year dcid quantity writer @ obs"
    "list_all2 (\<lambda>cs r. is_observation crime (fst cs) (snd cs) r) (zip cs statvar_list) obs"
    by auto
  then show ?case using y n q
    by (intro exI [of _ "\<lparr>Year = year, StatVar = dcid, Quantity = quantity\<rparr> # obs"])
       (simp add: write_row_def is_observation_def)
qed

lemma update_statvar_dcids_nodes:
  "list_all has_node_id (update_statvar_dcids gen svs cfg)"
  by (simp add: update_statvar_dcids_def list_all_iff has_node_id_def dict_get_dict_set_same)

lemma write_output_csv_row_obs:
  assumes "write_output_csv_row gen cfg cols crime w = (w', Inr svs)"
  shows "\<exists>obs. w' = w @ obs \<and> length svs = length cols \<and> list_all has_node_id svs \<and>
     list_all2 (\<lambda>cs r. is_observation crime (fst cs) (snd cs) r) (zip cols svs) obs"
proof -
  from assms obtain label kv svs0 u where
    "dict_get crime ''bias motivation'' = Some label" "pvs_lookup cfg label = Inr kv"
    and c: "copy_templates cfg cols = Inr svs0"
    and svs: "svs = update_statvar_dcids gen (update_statvars svs0 kv) cfg"
    and w: "write_rows crime cols svs w = (w', Inr u)"
    by (auto simp: write_output_csv_row_def Let_def split: option.splits sum.splits prod.splits)
  have len: "length svs = length cols"
    using copy_templates_length [OF c] by (simp add: svs update_statvar_dcids_def update_statvars_def)
  from write_rows_obs [OF w len] show ?thesis
    using len update_statvar_dcids_nodes [of gen "update_statvars svs0 kv" cfg] svs by auto
qed

lemma write_output_csv_loop_obs:
  "write_output_csv_loop gen cfg cols crimes w acc = (w', Inr svs) \<Longrightarrow>
   \<exists>obs added. w' = w @ obs \<and> svs = acc @ added \<and> list_all has_node_id added \<and>
     observations_of crimes cols added obs"
proof (induction crimes arbitrary: w acc)
  case Nil
  then show ?case by (simp add: observations_of_def)
next
  case (Cons crime crimes)
  from Cons.prems obtain w1 svs1 where
    row: "write_output_csv_row gen cfg cols crime w = (w1, Inr svs1)"
    and rest: "write_output_csv_loop gen cfg cols crimes w1 (acc @ svs1) = (w', Inr svs)"
    by (auto split: prod.splits sum.splits)
  from write_output_csv_row_obs [OF row] obtain obs1 where
    o1: "w1 = w @ obs1" "length svs1 = length cols" "list_all has_node_id svs1"
      "list_all2 (\<lambda>cs r. is_observation crime (fst cs) (snd cs) r) (zip cols svs1) obs1"
    by auto
  from Cons.IH [OF rest] obtain obs2 added where
    o2: "w' = w1 @ obs2" "svs = (acc @ svs1) @ added" "list_all has_node_id added"
      "observations_of crimes cols added obs2"
    by auto
  have z: "zip (map (Pair crime) cols) svs1 = map (\<lambda>cs. ((crime, fst cs), snd cs)) (zip cols svs1)"
    by (simp add: zip_map1 case_prod_beta)
  have "list_all2 (\<lambda>cs r. is_observation (fst (fst cs)) (snd (fst cs)) (snd cs) r)
          (zip (map (Pair crime) cols) svs1) obs1"
    unfolding z using o1(4) by (simp add: list_all2_map1)
  then have "observations_of (crime # crimes) cols (svs1 @ added) (obs1 @ obs2)"
    using o1(2) o2(4) by (simp add: observations_of_def zip_append list_all2_appendI)
  then show ?case using o1 o2
    by (intro exI [of _ "obs1 @ obs2"] exI [of _ "svs1 @ added"]) simp
qed

lemma observations_of_length: "observations_of crimes cols svs obs \<Longrightarrow> length obs = length crimes * length cols"
  by (auto simp: observations_of_def dest!: list_all2_lengthD)

lemma remove1_filter: "distinct xs \<Longrightarrow> remove1 x xs = filter (\<lambda>c. c \<noteq> x) xs"
  by (simp add: distinct_remove1_removeAll removeAll_filter_not_eq eq_commute)

lemma fact_columns_remove:
  assumes "distinct (fieldnames reader)"
  shows "remove1 ''Year'' (remove1 ''bias motivation'' (fieldnames reader)) = fact_columns reader"
  using assms by (simp add: remove1_filter fact_columns_def conj_commute)

lemma dict_mem_get: "dict_mem k d \<Longrightarrow> \<exists>v. dict_get d k = Some v"
  by (auto simp: dict_mem_def dict_get_def weak_map_of_SomeI image_iff)

lemma copy_templates_returns:
  "list_all (\<lambda>c. dict_mem c (populationType cfg)) cols \<Longrightarrow> \<exists>svs. copy_templates cfg cols = Inr svs"
proof (induction cols)
  case Nil
  then show ?case by simp
next
  case (Cons c cols)
  then obtain t svs where "dict_get (populationType cfg) c = Some t" "copy_templates cfg cols = Inr svs"
    using dict_mem_get [of c "populationType cfg"] by auto
  then show ?case by simp
qed

lemma write_rows_returns:
  "dict_mem ''Year'' crime \<Longrightarrow> list_all (\<lambda>c. dict_mem c crime) cols \<Longrightarrow>
   list_all has_node_id svs \<Longrightarrow> length svs = length cols \<Longrightarrow>
   \<exists>w'. write_rows crime cols svs w = (w', Inr ())"
proof (induction crime cols svs w rule: write_rows.induct)
  case (1 crime statvar_list writer)
  then show ?case by simp
next
  case (2 crime c cs writer)
  then show ?case by simp
next
  case (3 crime c cs statvar statvar_list writer)
  obtain year where y: "dict_get crime ''Year'' = Some year"
    using dict_mem_get [OF "3.prems"(1)] by auto
  obtain q where q: "dict_get crime c = Some q"
    using dict_mem_get [of c crime] "3.prems"(2) by auto
  have n: "dict_get statvar ''Node'' = Some (PStr (node_id statvar))"
    using "3.prems"(3) by (simp add: has_node_id_get)
  from "3.IH" [OF y n q "3.prems"(1)] "3.prems"
  obtain w' where "write_rows crime cs statvar_list (write_row year (PStr (node_id statvar)) q writer) = (w', Inr ())"
    by auto
  then show ?case using y q n by simp
qed

lemma write_output_csv_row_returns:
  assumes "list_all (\<lambda>c. dict_mem c (populationType cfg)) cols" and "row_complete cfg cols crime"
  shows "\<exists>w' svs. write_output_csv_row gen cfg cols crime w = (w', Inr svs)"
proof -
  from assms(2) obtain label where l: "dict_get crime ''bias motivation'' = Some (PStr label)"
    and m: "dict_mem label (pvs cfg)"
    by (auto simp: row_complete_def split: option.splits pyval.splits)
  from dict_mem_get [OF m] obtain kv where kv: "pvs_lookup cfg (PStr label) = Inr kv"
    by (auto simp: pvs_lookup_def)
  from copy_templates_returns [OF assms(1)] obtain svs0 where c: "copy_templates cfg cols = Inr svs0"
    by auto
  let ?svs = "update_statvar_dcids gen (update_statvars svs0 kv) cfg"
  have len: "length ?svs = length cols"
    using copy_templates_length [OF c] by (simp add: update_statvar_dcids_def update_statvars_def)
  from write_rows_returns [OF _ _ update_statvar_dcids_nodes len, of crime w] assms(2)
  obtain w' where "write_rows crime cols ?svs w = (w', Inr ())"
    by (auto simp: row_complete_def)
  then show ?thesis using l kv c by (simp add: write_output_csv_row_def)
qed

lemma write_output_csv_loop_returns:
  "table_complete cfg cols crimes \<Longrightarrow>
   \<exists>w' svs. write_output_csv_loop gen cfg cols crimes w acc = (w', Inr svs)"
proof (induction crimes arbitrary: w acc)
  case Nil
  then show ?case by simp
next
  case (Cons crime crimes)
  then have cols: "list_all (\<lambda>c. dict_mem c (populationType cfg)) cols"
    and row: "row_complete cfg cols crime" and rest: "table_complete cfg cols crimes"
    by (simp_all add: table_complete_def)
  from write_output_csv_row_returns [OF cols row] obtain w1 svs1 where
    "write_output_csv_row gen cfg cols crime w = (w1, Inr svs1)" by blast
  then show ?case using Cons.IH [OF rest, of w1 "acc @ svs1"] by simp
qed

text \<open>
  C4. When \<^verbatim>\<open>_write_output_csv\<close> returns, the writer has received, after the rows it
  held, exactly one observation per source row and fact column: \<open>R \<times> F\<close> rows, in source
  row order and within a row in column order, each with the row's \<^verbatim>\<open>Year\<close>, the
  \<^verbatim>\<open>Node\<close> of the statvar returned at the same position, and the row's cell of the column
  unchanged. For table 5 the fact columns are the field names of the canonical table (no
  name twice) other than \<^verbatim>\<open>'bias motivation'\<close> and \<^verbatim>\<open>'Year'\<close>; for table 8 they are
  the seven columns the script names. And it does return when the table is complete for
  the configuration: every fact column has a template, and every row has its year, its
  cells and a label that is a key of \<^verbatim>\<open>config['pvs']\<close>.
\<close>

theorem write_output_csv_expansion:
  "(write_output_csv gen reader writer cfg = (writer', Inr statvars) \<and> distinct (fieldnames reader) \<longrightarrow>
      (\<exists>obs. writer' = writer @ obs \<and>
             length obs = length (rows reader) * length (fact_columns reader) \<and>
             observations_of (rows reader) (fact_columns reader) statvars obs))
   \<and> (write_output_csv_table8 gen reader writer cfg = (writer', Inr statvars) \<longrightarrow>
      (\<exists>obs. writer' = writer @ obs \<and>
             length obs = length (rows reader) * 7 \<and>
             observations_of (rows reader) table8_columns statvars obs))
   \<and> (''bias motivation'' \<in> set (fieldnames reader) \<and> ''Year'' \<in> set (fieldnames reader) \<and>
      distinct (fieldnames reader) \<and> table_complete cfg (fact_columns reader) (rows reader) \<longrightarrow>
      (\<exists>w svs. write_output_csv gen reader writer cfg = (w, Inr svs)))
   \<and> (table_complete cfg table8_columns (rows reader) \<longrightarrow>
      (\<exists>w svs. write_output_csv_table8 gen reader writer cfg = (w, Inr svs)))"
proof (intro conjI impI)
  assume a: "write_output_csv gen reader writer cfg = (writer', Inr statvars) \<and> distinct (fieldnames reader)"
  then have "write_output_csv_loop gen cfg (fact_columns reader) (rows reader) writer [] =
               (writer', Inr statvars)"
    using fact_columns_remove [of reader]
    by (auto simp: write_output_csv_def list_remove_def split: if_splits)
  from write_output_csv_loop_obs [OF this]
  show "\<exists>obs. writer' = writer @ obs \<and>
             length obs = length (rows reader) * length (fact_columns reader) \<and>
             observations_of (rows reader) (fact_columns reader) statvars obs"
    using observations_of_length by auto
next
  assume "write_output_csv_table8 gen reader writer cfg = (writer', Inr statvars)"
  then have "write_output_csv_loop gen cfg table8_columns (rows reader) writer [] =
               (writer', Inr statvars)"
    by (simp add: write_output_csv_table8_def)
  from write_output_csv_loop_obs [OF this]
  have "\<exists>obs. writer' = writer @ obs \<and>
             length obs = length (rows reader) * length table8_columns \<and>
             observations_of (rows reader) table8_columns statvars obs"
    using observations_of_length by auto
  moreover have "length table8_columns = 7"
    by (simp add: table8_columns_def)
  ultimately show "\<exists>obs. writer' = writer @ obs \<and>
             length obs = length (rows reader) * 7 \<and>
             observations_of (rows reader) table8_columns statvars obs"
    by simp
next
  assume a: "''bias motivation'' \<in> set (fieldnames reader) \<and> ''Year'' \<in> set (fieldnames reader) \<and>
      distinct (fieldnames reader) \<and> table_complete cfg (fact_columns reader) (rows reader)"
  then have "write_output_csv gen reader writer cfg =
      write_output_csv_loop gen cfg (fact_columns reader) (rows reader) writer []"
    using fact_columns_remove [of reader]
    by (simp add: write_output_csv_def list_remove_def)
  then show "\<exists>w svs. write_output_csv gen reader writer cfg = (w, Inr svs)"
    using a write_output_csv_loop_returns [of cfg "fact_columns reader" "rows reader" gen writer "[]"]
    by simp
next
  assume "table_complete cfg table8_columns (rows reader)"
  then show "\<exists>w svs. write_output_csv_table8 gen reader writer cfg = (w, Inr svs)"
    using write_output_csv_loop_returns [of cfg table8_columns "rows reader" gen writer "[]"]
    by (simp add: write_output_csv_table8_def)
qed

theorem write_output_csv_expansion_witness:
  "write_output_csv sample_dcid (example_reader ''2019'') [] example_config =
     ([\<lparr>Year = PStr ''2019'', StatVar = PStr ''offenderRace=White;biasMotivation=race;'', Quantity = PStr ''10''\<rparr>,
       \<lparr>Year = PStr ''2019'', StatVar = PStr ''offenderRace=Asian;biasMotivation=race;'', Quantity = PStr ''2''\<rparr>,
       \<lparr>Year = PStr ''2019'', StatVar = PStr ''offenderRace=White;biasMotivation=religion;'', Quantity = PStr ''7''\<rparr>,
       \<lparr>Year = PStr ''2019'', StatVar = PStr ''offenderRace=Asian;biasMotivation=religion;'', Quantity = PStr ''''\<rparr>],
      Inr [[(''offenderRace'', PStr ''White''), (''biasMotivation'', PStr ''race''), (''targetedRace'', PStr ''Any''),
            (''Node'', PStr ''offenderRace=White;biasMotivation=race;'')],
           [(''offenderRace'', PStr ''Asian''), (''biasMotivation'', PStr ''race''), (''targetedRace'', PStr ''Any''),
            (''Node'', PStr ''offenderRace=Asian;biasMotivation=race;'')],
           [(''offenderRace'', PStr ''White''), (''biasMotivation'', PStr ''religion''),
            (''Node'', PStr ''offenderRace=White;biasMotivation=religion;'')],
           [(''offenderRace'', PStr ''Asian''), (''biasMotivation'', PStr ''religion''),
            (''Node'', PStr ''offenderRace=Asian;biasMotivation=religion;'')]])
   \<and> length (fst (write_output_csv sample_dcid (example_reader ''2019'') [] example_config)) =
       length (rows (example_reader ''2019'')) * length (fact_columns (example_reader ''2019''))
   \<and> map Quantity (fst (write_output_csv_table8 sample_dcid example_reader_table8 [] example_config_table8)) =
       [PStr ''21'', PStr ''6'', PStr ''5'', PStr ''4'', PStr ''3'', PStr ''2'', PStr ''1'']
   \<and> length (fst (write_output_csv_table8 sample_dcid example_reader_table8 [] example_config_table8)) =
       length (rows example_reader_table8) * 7"
proof -
  obtain w svs where run: "write_output_csv sample_dcid (example_reader ''2019'') [] example_config = (w, Inr svs)"
    and w: "w = [\<lparr>Year = PStr ''2019'', StatVar = PStr ''offenderRace=White;biasMotivation=race;'', Quantity = PStr ''10''\<rparr>,
       \<lparr>Year = PStr ''2019'', StatVar = PStr ''offenderRace=Asian;biasMotivation=race;'', Quantity = PStr ''2''\<rparr>,
       \<lparr>Year = PStr ''2019'', StatVar = PStr ''offenderRace=White;biasMotivation=religion;'', Quantity = PStr ''7''\<rparr>,
       \<lparr>Year = PStr ''2019'', StatVar = PStr ''offenderRace=Asian;biasMotivation=religion;'', Quantity = PStr ''''\<rparr>]"
    and svs: "svs = [[(''offenderRace'', PStr ''White''), (''biasMotivation'', PStr ''race''), (''targetedRace'', PStr ''Any''),
            (''Node'', PStr ''offenderRace=White;biasMotivation=race;'')],
           [(''offenderRace'', PStr ''Asian''), (''biasMotivation'', PStr ''race''), (''targetedRace'', PStr ''Any''),
            (''Node'', PStr ''offenderRace=Asian;biasMotivation=race;'')],
           [(''offenderRace'', PStr ''White''), (''biasMotivation'', PStr ''religion''),
            (''Node'', PStr ''offenderRace=White;biasMotivation=religion;'')],
           [(''offenderRace'', PStr ''Asian''), (''biasMotivation'', PStr ''religion''),
            (''Node'', PStr ''offenderRace=Asian;biasMotivation=religion;'')]]"
    by (simp add: write_output_csv_def list_remove_def example_reader_def example_config_def
      write_output_csv_row_def dict_get_def pvs_lookup_def update_statvars_def
      update_statvar_dcids_def get_dpv_def dict_mem_def dict_get_default_None_def
      sample_dcid_def write_row_def)
  have d: "distinct (fieldnames (example_reader ''2019''))"
    by (simp add: example_reader_def)
  obtain w8 svs8 where run8: "write_output_csv_table8 sample_dcid example_reader_table8 [] example_config_table8 = (w8, Inr svs8)"
    and q8: "map Quantity w8 = [PStr ''21'', PStr ''6'', PStr ''5'', PStr ''4'', PStr ''3'', PStr ''2'', PStr ''1'']"
    by (simp add: write_output_csv_table8_def table8_columns_def example_reader_table8_def
      example_config_table8_def
      write_output_csv_row_def dict_get_def pvs_lookup_def update_statvars_def
      update_statvar_dcids_def get_dpv_def dict_mem_def dict_get_default_None_def
      sample_dcid_def write_row_def)
  note th = write_output_csv_expansion [of sample_dcid "example_reader ''2019''" "[]" example_config w svs]
  have complete: "table_complete example_config (fact_columns (example_reader ''2019''))
      (rows (example_reader ''2019''))"
    by (simp add: table_complete_def row_complete_def fact_columns_def example_reader_def
        example_config_def dict_mem_def dict_get_def)
  from th d complete
  have "\<exists>w svs. write_output_csv sample_dcid (example_reader ''2019'') [] example_config = (w, Inr svs)"
    by (simp add: example_reader_def)
  from th run d have "length w = length (rows (example_reader ''2019'')) * length (fact_columns (example_reader ''2019''))"
    by auto
  moreover from write_output_csv_expansion [of sample_dcid example_reader_table8 "[]" example_config_table8 w8 svs8,
      THEN conjunct2] run8
  have "length w8 = length (rows example_reader_table8) * 7"
    by auto
  ultimately show ?thesis using run run8 q8 w svs by simp
qed

section \<open>Unmapped category labels\<close>

lemma write_output_csv_loop_raises:
  "crime \<in> set crimes \<Longrightarrow>
   (\<And>w. \<exists>w' e. write_output_csv_row gen cfg cols crime w = (w', Inl e)) \<Longrightarrow>
   \<exists>w' e. write_output_csv_loop gen cfg cols crimes w acc = (w', Inl e)"
proof (induction crimes arbitrary: w acc)
  case Nil
  then show ?case by simp
next
  case (Cons c crimes)
  show ?case
  proof (cases "write_output_csv_row gen cfg cols c w")
    case (Pair w1 r)
    show ?thesis
    proof (cases r)
      case (Inl e)
      then show ?thesis using Pair by simp
    next
      case (Inr svs)
      with Pair Cons.prems(2) [of w] have "c \<noteq> crime" by auto
      then have "crime \<in> set crimes" using Cons.prems(1) by simp
      from Cons.IH [OF this Cons.prems(2), of w1 "acc @ svs"] show ?thesis
        using Pair Inr by simp
    qed
  qed
qed

lemma unmapped_row:
  assumes "dict_get crime ''bias motivation'' = Some (PStr label)"
    and "\<not> dict_mem label (pvs cfg)"
  shows "write_output_csv_row gen cfg cols crime writer = (writer, Inl (KeyError (PStr label)))"
proof -
  have "dict_get (pvs cfg) label = None"
    using assms(2) by (simp add: dict_get_def dict_mem_def map_of_eq_None_iff)
  then show ?thesis using assms(1)
    by (simp add: write_output_csv_row_def pvs_lookup_def)
qed

text \<open>
  C8. A row whose \<^verbatim>\<open>'bias motivation'\<close> is no key of \<^verbatim>\<open>config['pvs']\<close> raises
  \<^verbatim>\<open>KeyError\<close> with the label: the row writes nothing, the loop stops at it with what
  was written before, and a table that holds such a row never returns a list of statvars,
  in table 5 and in table 8.
\<close>

theorem unmapped_label_raises:
  assumes "dict_get crime ''bias motivation'' = Some (PStr label)"
    and "\<not> dict_mem label (pvs cfg)"
  shows "write_output_csv_row gen cfg cols crime writer = (writer, Inl (KeyError (PStr label)))
       \<and> write_output_csv_loop gen cfg cols (crime # crimes) writer statvars =
           (writer, Inl (KeyError (PStr label)))
       \<and> (crime \<in> set (rows reader) \<longrightarrow>
            (\<exists>w' e. write_output_csv gen reader writer cfg = (w', Inl e)) \<and>
            (\<exists>w' e. write_output_csv_table8 gen reader writer cfg = (w', Inl e)))"
proof (intro conjI impI)
  show row: "write_output_csv_row gen cfg cols crime writer = (writer, Inl (KeyError (PStr label)))"
    by (rule unmapped_row [OF assms])
  then show "write_output_csv_loop gen cfg cols (crime # crimes) writer statvars =
           (writer, Inl (KeyError (PStr label)))"
    by simp
next
  assume mem: "crime \<in> set (rows reader)"
  have any: "\<And>cols w. \<exists>w' e. write_output_csv_row gen cfg cols crime w = (w', Inl e)"
    using unmapped_row [OF assms] by blast
  show "\<exists>w' e. write_output_csv gen reader writer cfg = (w', Inl e)"
    using write_output_csv_loop_raises [OF mem any]
    by (auto simp: write_output_csv_def split: sum.splits)
next
  assume mem: "crime \<in> set (rows reader)"
  have any: "\<And>cols w. \<exists>w' e. write_output_csv_row gen cfg cols crime w = (w', Inl e)"
    using unmapped_row [OF assms] by blast
  show "\<exists>w' e. write_output_csv_table8 gen reader writer cfg = (w', Inl e)"
    using write_output_csv_loop_raises [OF mem any]
    by (simp add: write_output_csv_table8_def)
qed

theorem unmapped_label_raises_witness:
  "write_output_csv sample_dcid
     \<lparr>fieldnames = [''Year'', ''bias motivation'', ''white'', ''asian''],
      rows = [[(''Year'', PStr ''2019''), (''bias motivation'', PStr ''Race''),
               (''white'', PStr ''10''), (''asian'', PStr ''2'')],
              [(''Year'', PStr ''2019''), (''bias motivation'', PStr ''Gender''),
               (''white'', PStr ''7''), (''asian'', PStr ''1'')],
              [(''Year'', PStr ''2019''), (''bias motivation'', PStr ''Religion''),
               (''white'', PStr ''7''), (''asian'', PStr ''1'')]]\<rparr>
     [] example_config
   = ([\<lparr>Year = PStr ''2019'', StatVar = PStr ''offenderRace=White;biasMotivation=race;'', Quantity = PStr ''10''\<rparr>,
       \<lparr>Year = PStr ''2019'', StatVar = PStr ''offenderRace=Asian;biasMotivation=race;'', Quantity = PStr ''2''\<rparr>],
      Inl (KeyError (PStr ''Gender'')))"
  using unmapped_label_raises [of
      "[(''Year'', PStr ''2019''), (''bias motivation'', PStr ''Gender''),
        (''white'', PStr ''7''), (''asian'', PStr ''1'')]"
      "''Gender''" example_config sample_dcid "[''white'', ''asian'']"
      "[\<lparr>Year = PStr ''2019'', StatVar = PStr ''offenderRace=White;biasMotivation=race;'', Quantity = PStr ''10''\<rparr>,
       \<lparr>Year = PStr ''2019'', StatVar = PStr ''offenderRace=Asian;biasMotivation=race;'', Quantity = PStr ''2''\<rparr>]"
      "[[(''Year'', PStr ''2019''), (''bias motivation'', PStr ''Religion''),
               (''white'', PStr ''7''), (''asian'', PStr ''1'')]]"
      "[[(''offenderRace'', PStr ''White''), (''biasMotivation'', PStr ''race''), (''targetedRace'', PStr ''Any''),
         (''Node'', PStr ''offenderRace=White;biasMotivation=race;'')],
        [(''offenderRace'', PStr ''Asian''), (''biasMotivation'', PStr ''race''), (''targetedRace'', PStr ''Any''),
         (''Node'', PStr ''offenderRace=Asian;biasMotivation=race;'')]]",
      THEN conjunct2, THEN conjunct1]
  by (simp add: write_output_csv_def list_remove_def example_config_def
      write_output_csv_row_def dict_get_def pvs_lookup_def update_statvars_def
      update_statvar_dcids_def get_dpv_def dict_mem_def dict_get_default_None_def
      sample_dcid_def write_row_def)

section \<open>The StatVar column and the nodes of the metadata file\<close>

lemma statvar_column:
  "list_all2 (\<lambda>cs r. is_observation crime (fst cs) (snd cs) r) (zip cols svs) obs \<Longrightarrow>
   length svs = length cols \<Longrightarrow> list_all has_node_id svs \<Longrightarrow>
   map StatVar obs = map (\<lambda>sv. PStr (node_id sv)) svs"
proof (induction cols arbitrary: svs obs)
  case Nil
  then show ?case by simp
next
  case (Cons c cols)
  then obtain sv svs' where svs: "svs = sv # svs'" by (cases svs) auto
  with Cons.prems obtain r obs' where obs: "obs = r # obs'" by (cases obs) auto
  show ?case using Cons.prems Cons.IH [of svs' obs'] unfolding svs obs
    by (auto simp: is_observation_def has_node_id_get)
qed

lemma write_output_csv_loop_statvars:
  "write_output_csv_loop gen cfg cols crimes w acc = (w', Inr svs) \<Longrightarrow>
   \<exists>obs added. w' = w @ obs \<and> svs = acc @ added \<and> list_all has_node_id added \<and>
     map StatVar obs = map (\<lambda>sv. PStr (node_id sv)) added"
proof (induction crimes arbitrary: w acc)
  case Nil
  then show ?case by simp
next
  case (Cons crime crimes)
  from Cons.prems obtain w1 svs1 where
    row: "write_output_csv_row gen cfg cols crime w = (w1, Inr svs1)"
    and rest: "write_output_csv_loop gen cfg cols crimes w1 (acc @ svs1) = (w', Inr svs)"
    by (auto split: prod.splits sum.splits)
  from write_output_csv_row_obs [OF row] obtain obs1 where
    o1: "w1 = w @ obs1" "length svs1 = length cols" "list_all has_node_id svs1"
      "list_all2 (\<lambda>cs r. is_observation crime (fst cs) (snd cs) r) (zip cols svs1) obs1"
    by auto
  from Cons.IH [OF rest] obtain obs2 added where
    o2: "w' = w1 @ obs2" "svs = (acc @ svs1) @ added" "list_all has_node_id added"
      "map StatVar obs2 = map (\<lambda>sv. PStr (node_id sv)) added"
    by auto
  show ?case using o1(1-3) o2 statvar_column [OF o1(4) o1(2) o1(3)]
    by (intro exI [of _ "obs1 @ obs2"] exI [of _ "svs1 @ added"]) simp
qed

lemma create_csv_mcf_loop_statvars:
  "create_csv_mcf_loop gen readers w cfg acc = (w', Inr svs) \<Longrightarrow>
   \<exists>obs added. w' = w @ obs \<and> svs = acc @ added \<and> list_all has_node_id added \<and>
     map StatVar obs = map (\<lambda>sv. PStr (node_id sv)) added"
proof (induction readers arbitrary: w acc)
  case Nil
  then show ?case by simp
next
  case (Cons reader readers)
  from Cons.prems obtain w1 svs1 where
    one: "write_output_csv gen reader w cfg = (w1, Inr svs1)"
    and rest: "create_csv_mcf_loop gen readers w1 cfg (acc @ svs1) = (w', Inr svs)"
    by (auto split: prod.splits sum.splits)
  from one obtain cols where
    "write_output_csv_loop gen cfg cols (rows reader) w [] = (w1, Inr svs1)"
    by (auto simp: write_output_csv_def split: sum.splits)
  from write_output_csv_loop_statvars [OF this] obtain obs1 where
    o1: "w1 = w @ obs1" "list_all has_node_id svs1"
      "map StatVar obs1 = map (\<lambda>sv. PStr (node_id sv)) svs1"
    by auto
  from Cons.IH [OF rest] obtain obs2 added where
    o2: "w' = w1 @ obs2" "svs = (acc @ svs1) @ added" "list_all has_node_id added"
      "map StatVar obs2 = map (\<lambda>sv. PStr (node_id sv)) added"
    by auto
  show ?case using o1 o2
    by (intro exI [of _ "obs1 @ obs2"] exI [of _ "svs1 @ added"]) simp
qed

text \<open>
  C5. When \<^verbatim>\<open>_create_csv_mcf\<close> returns the statvars of all input files, the cleaned CSV
  is the header row and one observation per statvar whose \<^verbatim>\<open>StatVar\<close> is the statvar's
  \<^verbatim>\<open>Node\<close>; \<^verbatim>\<open>_create_mcf\<close> succeeds on these statvars and writes one block, headed
  \<^verbatim>\<open>Node: dcid:<identifier>\<close>, for the first statvar of each identifier; and the
  identifiers of these blocks are, as a set, those of the \<^verbatim>\<open>StatVar\<close> column.
\<close>

theorem statvar_column_matches_nodes:
  assumes "create_csv_mcf gen csv_files cfg = (cleaned, Inr statvars)"
  shows "\<exists>obs. cleaned = output_header # obs
           \<and> map StatVar obs = map (\<lambda>sv. PStr (node_id sv)) statvars
           \<and> create_mcf statvars = Inr (concat (map mcf_block (first_seen statvars)))
           \<and> set (map StatVar obs) = set (map (\<lambda>sv. PStr (node_id sv)) (first_seen statvars))"
proof -
  from create_csv_mcf_loop_statvars [OF assms [unfolded create_csv_mcf_def]]
  obtain obs where o: "cleaned = [output_header] @ obs" "list_all has_node_id statvars"
    "map StatVar obs = map (\<lambda>sv. PStr (node_id sv)) statvars"
    by auto
  have "\<And>svs. list_all has_node_id svs \<Longrightarrow>
          (\<lambda>s. Some (PStr s)) ` set (map node_id svs) = (\<lambda>s. dict_get s ''Node'') ` set svs"
    by (auto simp: list_all_iff has_node_id_get image_iff)
  moreover have "list_all has_node_id (first_seen statvars)"
    using set_first_seen_subset [of statvars] o(2) by (auto simp: list_all_iff)
  ultimately have "(\<lambda>s. Some (PStr s)) ` set (map node_id (first_seen statvars)) =
                   (\<lambda>s. Some (PStr s)) ` set (map node_id statvars)"
    using o(2) nodes_first_seen [of statvars] by simp
  then have "set (map node_id statvars) = set (map node_id (first_seen statvars))"
    by (simp add: inj_image_eq_iff inj_on_def)
  then have "PStr ` set (map node_id statvars) = PStr ` set (map node_id (first_seen statvars))"
    by simp
  then have "set (map (\<lambda>sv. PStr (node_id sv)) statvars) =
             set (map (\<lambda>sv. PStr (node_id sv)) (first_seen statvars))"
    by (simp add: image_image)
  then have sets: "set (map StatVar obs) = set (map (\<lambda>sv. PStr (node_id sv)) (first_seen statvars))"
    by (simp only: o(3))
  have "cleaned = output_header # obs"
    using o(1) by simp
  then show ?thesis using o(3) create_mcf_blocks [OF o(2)] sets by blast
qed

theorem statvar_column_matches_nodes_witness:
  "map StatVar (tl (fst (create_csv_mcf sample_dcid [example_reader ''2019'', example_reader ''2020''] example_config)))
     = [PStr ''offenderRace=White;biasMotivation=race;'', PStr ''offenderRace=Asian;biasMotivation=race;'',
        PStr ''offenderRace=White;biasMotivation=religion;'', PStr ''offenderRace=Asian;biasMotivation=religion;'',
        PStr ''offenderRace=White;biasMotivation=race;'', PStr ''offenderRace=Asian;biasMotivation=race;'',
        PStr ''offenderRace=White;biasMotivation=religion;'', PStr ''offenderRace=Asian;biasMotivation=religion;'']
   \<and> (case snd (create_csv_mcf sample_dcid [example_reader ''2019'', example_reader ''2020''] example_config) of
        Inl e \<Rightarrow> Inl e | Inr statvars \<Rightarrow> create_mcf statvars)
     = Inr (''Node: dcid:offenderRace=White;biasMotivation=race;'' @ NL @
            ''offenderRace: dcs:White'' @ NL @ ''biasMotivation: dcs:race'' @ NL @ ''targetedRace: dcs:Any'' @ NL @ NL @
            ''Node: dcid:offenderRace=Asian;biasMotivation=race;'' @ NL @
            ''offenderRace: dcs:Asian'' @ NL @ ''biasMotivation: dcs:race'' @ NL @ ''targetedRace: dcs:Any'' @ NL @ NL @
            ''Node: dcid:offenderRace=White;biasMotivation=religion;'' @ NL @
            ''offenderRace: dcs:White'' @ NL @ ''biasMotivation: dcs:religion'' @ NL @ NL @
            ''Node: dcid:offenderRace=Asian;biasMotivation=religion;'' @ NL @
            ''offenderRace: dcs:Asian'' @ NL @ ''biasMotivation: dcs:religion'' @ NL @ NL)"
proof -
  obtain cleaned statvars where
    run: "create_csv_mcf sample_dcid [example_reader ''2019'', example_reader ''2020''] example_config
            = (cleaned, Inr statvars)"
    and ids: "map node_id statvars =
       [''offenderRace=White;biasMotivation=race;'', ''offenderRace=Asian;biasMotivation=race;'',
        ''offenderRace=White;biasMotivation=religion;'', ''offenderRace=Asian;biasMotivation=religion;'',
        ''offenderRace=White;biasMotivation=race;'', ''offenderRace=Asian;biasMotivation=race;'',
        ''offenderRace=White;biasMotivation=religion;'', ''offenderRace=Asian;biasMotivation=religion;'']"
    and blocks: "concat (map mcf_block (first_seen statvars)) =
            ''Node: dcid:offenderRace=White;biasMotivation=race;'' @ NL @
            ''offenderRace: dcs:White'' @ NL @ ''biasMotivation: dcs:race'' @ NL @ ''targetedRace: dcs:Any'' @ NL @ NL @
            ''Node: dcid:offenderRace=Asian;biasMotivation=race;'' @ NL @
            ''offenderRace: dcs:Asian'' @ NL @ ''biasMotivation: dcs:race'' @ NL @ ''targetedRace: dcs:Any'' @ NL @ NL @
            ''Node: dcid:offenderRace=White;biasMotivation=religion;'' @ NL @
            ''offenderRace: dcs:White'' @ NL @ ''biasMotivation: dcs:religion'' @ NL @ NL @
            ''Node: dcid:offenderRace=Asian;biasMotivation=religion;'' @ NL @
            ''offenderRace: dcs:Asian'' @ NL @ ''biasMotivation: dcs:religion'' @ NL @ NL"
    by (simp add: create_csv_mcf_def write_output_csv_def list_remove_def example_reader_def
      example_config_def write_output_csv_row_def dict_get_def pvs_lookup_def update_statvars_def
      update_statvar_dcids_def get_dpv_def dict_mem_def dict_get_default_None_def
      sample_dcid_def write_row_def node_id_def mcf_block_def)
  from statvar_column_matches_nodes [OF run] obtain obs where
    c: "cleaned = output_header # obs"
    and o: "map StatVar obs = map (\<lambda>sv. PStr (node_id sv)) statvars"
    and m: "create_mcf statvars = Inr (concat (map mcf_block (first_seen statvars)))"
    by blast
  have "map StatVar obs = map PStr (map node_id statvars)"
    using o by simp
  then have column: "map StatVar (tl cleaned) = map PStr (map node_id statvars)"
    using c by simp
  show ?thesis
    unfolding run fst_conv snd_conv sum.case column m ids blocks by simp
qed

section \<open>Category label cleanup\<close>

lemma filter_not_dropWhile: "filter (\<lambda>c. \<not> P c) (dropWhile P xs) = filter (\<lambda>c. \<not> P c) xs"
  by (induction xs) auto

lemma re_sub_runs_delete: "re_sub_runs cls [] s = filter (\<lambda>c. \<not> cls c) s"
  by (induction cls "[] :: string" s rule: re_sub_runs.induct) (auto simp: filter_not_dropWhile)

lemma dropWhile_run:
  "list_all cls ws \<Longrightarrow> u = [] \<or> \<not> cls (hd u) \<Longrightarrow> dropWhile cls (ws @ u) = u"
proof (induction ws)
  case Nil
  then show ?case by (cases u) auto
next
  case (Cons w ws)
  then show ?case by simp
qed

lemma re_sub_runs_run:
  assumes "ws \<noteq> []" and "list_all cls ws" and "u = [] \<or> \<not> cls (hd u)"
  shows "re_sub_runs cls repl (ws @ u) = repl @ re_sub_runs cls repl u"
proof -
  from assms(1) obtain w ws' where ws: "ws = w # ws'" by (cases ws) auto
  then have "cls w" "list_all cls ws'" using assms(2) by simp_all
  then show ?thesis using dropWhile_run [OF \<open>list_all cls ws'\<close> assms(3)] by (simp add: ws)
qed

lemma py_strip_core:
  assumes "list_all is_space a" and "list_all is_space b"
    and "core = [] \<or> (\<not> is_space (hd core) \<and> \<not> is_space (last core))"
  shows "py_strip (a @ core @ b) = core"
proof (cases "core = []")
  case True
  have "list_all is_space (a @ b)"
    using assms(1,2) by simp
  then have d: "dropWhile is_space (a @ b) = []"
    unfolding dropWhile_eq_Nil_conv by (simp add: list_all_iff)
  have "py_strip (a @ b) = []"
    unfolding py_strip_def d by simp
  then show ?thesis using True by simp
next
  case False
  then have h: "\<not> is_space (hd core)" and l: "\<not> is_space (last core)" using assms(3) by auto
  have "dropWhile is_space (a @ core @ b) = core @ b"
    using dropWhile_run [OF assms(1), of "core @ b"] False h by simp
  moreover have "dropWhile is_space (rev b @ rev core) = rev core"
    using dropWhile_run [of is_space "rev b" "rev core"] assms(2) False l
    by (simp add: hd_rev list_all_iff)
  ultimately show ?thesis by (simp add: py_strip_def)
qed

lemma column_row_map_column:
  "column_row name cols (map_column name f cols row) = map f (column_row name cols row)"
  by (induction name f cols row rule: map_column.induct) auto

lemma column_values_assign_column:
  "column_values name (assign_column name f df) = map f (column_values name df)"
  by (simp add: column_values_def assign_column_def column_row_map_column map_concat comp_def)

lemma is_str_series_replace: "is_str (series_replace cls repl x) = is_str x"
  by (cases x) (simp_all add: is_str_def series_replace_def)

lemma str_accessor_ok_replace:
  "str_accessor_ok name (assign_column name (series_replace cls repl) df) = str_accessor_ok name df"
  by (simp add: str_accessor_ok_def column_values_assign_column list_ex_iff is_str_series_replace)

lemma df_columns_assign_column: "df_columns (assign_column name f df) = df_columns df"
  by (simp add: assign_column_def)

lemma map_column_absent: "name \<notin> set cs \<Longrightarrow> map_column name f cs xs = xs"
  by (induction name f cs xs rule: map_column.induct) auto

lemma clean_cell:
  "str_strip (series_replace is_space '' '' (series_replace is_digit_or_colon [] x)) =
     (case x of CStr s \<Rightarrow> CStr (clean_label s) | _ \<Rightarrow> CNaN)"
  by (cases x) (simp_all add: str_strip_def series_replace_def clean_label_def re_sub_runs_delete)

lemma map_column_thrice:
  assumes "name \<notin> set cs"
  shows "map_column name str_strip (name # cs)
           (map_column name (series_replace is_space '' '') (name # cs)
              (map_column name (series_replace is_digit_or_colon []) (name # cs) row)) =
         clean_row row"
  using assms by (cases row) (simp_all add: map_column_absent clean_cell)

lemma clean_bias_motivation_rows:
  assumes "df_columns df = ''bias motivation'' # cs" and "''bias motivation'' \<notin> set cs"
  shows "clean_bias_motivation df =
           (if str_accessor_ok ''bias motivation'' df
            then Inr (df\<lparr>df_rows := map clean_row (df_rows df)\<rparr>) else Inl AttributeError)"
proof -
  let ?df1 = "assign_column ''bias motivation'' (series_replace is_digit_or_colon []) df"
  let ?df2 = "assign_column ''bias motivation'' (series_replace is_space '' '') ?df1"
  have ok: "str_accessor_ok ''bias motivation'' ?df2 = str_accessor_ok ''bias motivation'' df"
    by (simp only: str_accessor_ok_replace)
  have rows: "assign_column ''bias motivation'' str_strip ?df2 =
      df\<lparr>df_rows := map clean_row (df_rows df)\<rparr>"
    by (simp add: assign_column_def assms(1) map_column_thrice [OF assms(2)] comp_def)
  show ?thesis
    by (simp only: clean_bias_motivation_def Let_def ok rows)
qed

text \<open>
  C6. Whatever the labels are, \<^verbatim>\<open>_clean_dataframe\<close> returns, for a dataframe with the
  column count of the year's layout whose label column holds a string, the table with that
  layout in which every label is cleaned in this order: every digit and colon removed, then
  every run of whitespace written as one space, then the whitespace at both ends removed;
  the other cells are as they were. This holds for both layouts of table 5 and for table 8.
  So the label \<^verbatim>\<open>"3:  Race / Ethnicity   motivation"\<close> becomes
  \<^verbatim>\<open>"Race / Ethnicity motivation"\<close>, and \<^verbatim>\<open>"Anti-Jewish 1 total"\<close>, where the order of
  the first two steps shows, becomes \<^verbatim>\<open>"Anti-Jewish total"\<close>. The steps themselves: the
  first deletes every digit and colon and keeps the other characters; the second keeps a
  character that is no whitespace and writes one space for a whole run of whitespace; the
  third removes the whitespace before and after a text that neither begins nor ends with
  whitespace.
\<close>

theorem bias_motivation_cleanup:
  "(year \<in> set years_2013_2020 \<and> length (df_columns df) = 14 \<and>
      str_accessor_ok ''bias motivation'' (df\<lparr>df_columns := columns_2013_2020\<rparr>) \<longrightarrow>
      clean_dataframe df year =
        Inr \<lparr>df_columns = columns_2013_2020, df_rows = map clean_row (df_rows df)\<rparr>)
   \<and> (year \<notin> set years_2013_2020 \<and> length (df_columns df) = 9 \<and>
      str_accessor_ok ''bias motivation'' (df\<lparr>df_columns := columns_2004_2012\<rparr>) \<longrightarrow>
      clean_dataframe df year =
        Inr \<lparr>df_columns = columns_2004_2012, df_rows = map clean_row (df_rows df)\<rparr>)
   \<and> (length (df_columns df) = 8 \<and>
      str_accessor_ok ''bias motivation'' (df\<lparr>df_columns := ''bias motivation'' # table8_columns\<rparr>) \<longrightarrow>
      clean_dataframe_table8 df year =
        Inr \<lparr>df_columns = ''bias motivation'' # table8_columns, df_rows = map clean_row (df_rows df)\<rparr>)
   \<and> clean_label s = py_strip (re_sub_runs is_space '' '' (filter (\<lambda>c. \<not> is_digit_or_colon c) s))
   \<and> clean_label ''3:  Race / Ethnicity   motivation'' = ''Race / Ethnicity motivation''
   \<and> clean_label ''Anti-Jewish 1 total'' = ''Anti-Jewish total''
   \<and> clean_dataframe
     \<lparr>df_columns = [''Bias motivation'', ''Total offenses'', ''White'', ''Black'', ''American Indian'',
                    ''Asian'', ''Multiple'', ''Unknown race'', ''Unknown offender''],
      df_rows = [[CStr ''3:  Race / Ethnicity   motivation'', CNum 1, CNum 2, CNum 3, CNum 4,
                  CNum 5, CNum 6, CNum 7, CNaN],
                 [CStr ''Anti-Jewish 1 total'', CNum 1, CNum 2, CNum 3, CNum 4,
                  CNum 5, CNum 6, CNum 7, CNaN]]\<rparr> ''2012''
   = Inr \<lparr>df_columns = columns_2004_2012,
          df_rows = [[CStr ''Race / Ethnicity motivation'', CNum 1, CNum 2, CNum 3, CNum 4,
                      CNum 5, CNum 6, CNum 7, CNaN],
                     [CStr ''Anti-Jewish total'', CNum 1, CNum 2, CNum 3, CNum 4,
                      CNum 5, CNum 6, CNum 7, CNaN]]\<rparr>
   \<and> clean_dataframe_table8
     \<lparr>df_columns = [''Bias motivation'', ''Total'', ''Individual'', ''Business'', ''Government'',
                    ''Religious'', ''Society'', ''Other''],
      df_rows = [[CStr ''3:  Race / Ethnicity   motivation'', CNum 1, CNum 2, CNum 3, CNum 4,
                  CNum 5, CNum 6, CNum 7],
                 [CStr ''Anti-Jewish 1 total'', CNum 1, CNum 2, CNum 3, CNum 4,
                  CNum 5, CNum 6, CNum 7]]\<rparr> ''2019''
   = Inr \<lparr>df_columns = ''bias motivation'' # table8_columns,
          df_rows = [[CStr ''Race / Ethnicity motivation'', CNum 1, CNum 2, CNum 3, CNum 4,
                      CNum 5, CNum 6, CNum 7],
                     [CStr ''Anti-Jewish total'', CNum 1, CNum 2, CNum 3, CNum 4,
                      CNum 5, CNum 6, CNum 7]]\<rparr>
   \<and> re_sub_runs is_digit_or_colon [] s = filter (\<lambda>c. \<not> is_digit_or_colon c) s
   \<and> (\<not> is_space c \<longrightarrow> re_sub_runs is_space '' '' (c # u) = c # re_sub_runs is_space '' '' u)
   \<and> (ws \<noteq> [] \<and> list_all is_space ws \<and> (u = [] \<or> \<not> is_space (hd u)) \<longrightarrow>
        re_sub_runs is_space '' '' (ws @ u) = '' '' @ re_sub_runs is_space '' '' u)
   \<and> (list_all is_space a \<and> list_all is_space b \<and>
        (core = [] \<or> (\<not> is_space (hd core) \<and> \<not> is_space (last core))) \<longrightarrow>
        py_strip (a @ core @ b) = core)"
proof (intro conjI impI)
  show "clean_dataframe df year =
        Inr \<lparr>df_columns = columns_2013_2020, df_rows = map clean_row (df_rows df)\<rparr>"
    if h: "year \<in> set years_2013_2020 \<and> length (df_columns df) = 14 \<and>
      str_accessor_ok ''bias motivation'' (df\<lparr>df_columns := columns_2013_2020\<rparr>)"
  proof -
    have "set_columns columns_2013_2020 df = Inr (df\<lparr>df_columns := columns_2013_2020\<rparr>)"
      using h by (simp add: set_columns_def columns_2013_2020_def)
    moreover have "clean_bias_motivation (df\<lparr>df_columns := columns_2013_2020\<rparr>) =
        Inr (df\<lparr>df_columns := columns_2013_2020, df_rows := map clean_row (df_rows df)\<rparr>)"
      using h clean_bias_motivation_rows [of "df\<lparr>df_columns := columns_2013_2020\<rparr>"
          "tl columns_2013_2020"]
      by (simp add: columns_2013_2020_def)
    ultimately show ?thesis using h by (simp add: clean_dataframe_def)
  qed
  show "clean_dataframe df year =
        Inr \<lparr>df_columns = columns_2004_2012, df_rows = map clean_row (df_rows df)\<rparr>"
    if h: "year \<notin> set years_2013_2020 \<and> length (df_columns df) = 9 \<and>
      str_accessor_ok ''bias motivation'' (df\<lparr>df_columns := columns_2004_2012\<rparr>)"
  proof -
    have "set_columns columns_2004_2012 df = Inr (df\<lparr>df_columns := columns_2004_2012\<rparr>)"
      using h by (simp add: set_columns_def columns_2004_2012_def)
    moreover have "clean_bias_motivation (df\<lparr>df_columns := columns_2004_2012\<rparr>) =
        Inr (df\<lparr>df_columns := columns_2004_2012, df_rows := map clean_row (df_rows df)\<rparr>)"
      using h clean_bias_motivation_rows [of "df\<lparr>df_columns := columns_2004_2012\<rparr>"
          "tl columns_2004_2012"]
      by (simp add: columns_2004_2012_def)
    ultimately show ?thesis using h by (simp add: clean_dataframe_def)
  qed
  show "clean_dataframe_table8 df year =
        Inr \<lparr>df_columns = ''bias motivation'' # table8_columns, df_rows = map clean_row (df_rows df)\<rparr>"
    if h: "length (df_columns df) = 8 \<and>
      str_accessor_ok ''bias motivation'' (df\<lparr>df_columns := ''bias motivation'' # table8_columns\<rparr>)"
  proof -
    have "set_columns (''bias motivation'' # table8_columns) df =
        Inr (df\<lparr>df_columns := ''bias motivation'' # table8_columns\<rparr>)"
      using h by (simp add: set_columns_def table8_columns_def)
    moreover have "clean_bias_motivation (df\<lparr>df_columns := ''bias motivation'' # table8_columns\<rparr>) =
        Inr (df\<lparr>df_columns := ''bias motivation'' # table8_columns,
                df_rows := map clean_row (df_rows df)\<rparr>)"
      using h clean_bias_motivation_rows [of "df\<lparr>df_columns := ''bias motivation'' # table8_columns\<rparr>"
          table8_columns]
      by (simp add: table8_columns_def)
    ultimately show ?thesis by (simp add: clean_dataframe_table8_def)
  qed
  show "clean_label s = py_strip (re_sub_runs is_space '' '' (filter (\<lambda>c. \<not> is_digit_or_colon c) s))"
    by (simp add: clean_label_def)
  show "clean_label ''3:  Race / Ethnicity   motivation'' = ''Race / Ethnicity motivation''"
    by (simp add: clean_label_def py_strip_def is_space_def is_digit_or_colon_def)
  show "clean_label ''Anti-Jewish 1 total'' = ''Anti-Jewish total''"
    by (simp add: clean_label_def py_strip_def is_space_def is_digit_or_colon_def)
  show "re_sub_runs is_digit_or_colon [] s = filter (\<lambda>c. \<not> is_digit_or_colon c) s"
    by (rule re_sub_runs_delete)
  show "re_sub_runs is_space '' '' (c # u) = c # re_sub_runs is_space '' '' u" if "\<not> is_space c"
    using that by simp
  show "re_sub_runs is_space '' '' (ws @ u) = '' '' @ re_sub_runs is_space '' '' u"
    if "ws \<noteq> [] \<and> list_all is_space ws \<and> (u = [] \<or> \<not> is_space (hd u))"
    using that re_sub_runs_run [of ws is_space u] by blast
  show "py_strip (a @ core @ b) = core"
    if "list_all is_space a \<and> list_all is_space b \<and>
        (core = [] \<or> (\<not> is_space (hd core) \<and> \<not> is_space (last core)))"
    using that py_strip_core [of a b core] by blast
qed (simp_all add: clean_dataframe_def clean_dataframe_table8_def set_columns_def
       years_2013_2020_def columns_2004_2012_def table8_columns_def clean_bias_motivation_def
       assign_column_def series_replace_def str_strip_def str_accessor_ok_def column_values_def
       is_str_def py_strip_def is_space_def is_digit_or_colon_def)

theorem bias_motivation_cleanup_witness:
  "clean_dataframe
     \<lparr>df_columns = [''Bias motivation'', ''Total offenses'', ''White'', ''Black'', ''American Indian'',
                    ''Asian'', ''Multiple'', ''Unknown race'', ''Unknown offender''],
      df_rows = [[CStr ''Anti-Jewish 1 total'', CNum 1, CNum 2, CNum 3, CNum 4,
                  CNum 5, CNum 6, CNum 7, CNaN],
                 [CNaN, CNum 1, CNum 2, CNum 3, CNum 4, CNum 5, CNum 6, CNum 7, CNum 8]]\<rparr> ''2005''
   = Inr \<lparr>df_columns = columns_2004_2012,
          df_rows = [[CStr (clean_label ''Anti-Jewish 1 total''), CNum 1, CNum 2, CNum 3, CNum 4,
                      CNum 5, CNum 6, CNum 7, CNaN],
                     [CNaN, CNum 1, CNum 2, CNum 3, CNum 4, CNum 5, CNum 6, CNum 7, CNum 8]]\<rparr>
   \<and> re_sub_runs is_digit_or_colon [] ''3:  Race / Ethnicity   motivation''
     = ''  Race / Ethnicity   motivation''
   \<and> re_sub_runs is_space '' '' (''  '' @ ''Race / Ethnicity   motivation'')
     = '' '' @ re_sub_runs is_space '' '' ''Race / Ethnicity   motivation''
   \<and> re_sub_runs is_space '' '' (CHR ''R'' # ''ace / Ethnicity   motivation'')
     = CHR ''R'' # re_sub_runs is_space '' '' ''ace / Ethnicity   motivation''
   \<and> py_strip ('' '' @ ''Race / Ethnicity motivation'' @ []) = ''Race / Ethnicity motivation''"
proof -
  let ?df = "\<lparr>df_columns = [''Bias motivation'', ''Total offenses'', ''White'', ''Black'', ''American Indian'',
                    ''Asian'', ''Multiple'', ''Unknown race'', ''Unknown offender''],
      df_rows = [[CStr ''Anti-Jewish 1 total'', CNum 1, CNum 2, CNum 3, CNum 4,
                  CNum 5, CNum 6, CNum 7, CNaN],
                 [CNaN, CNum 1, CNum 2, CNum 3, CNum 4, CNum 5, CNum 6, CNum 7, CNum 8]]\<rparr>"
  note th = bias_motivation_cleanup [where year = "''2005''" and df = ?df
      and s = "''3:  Race / Ethnicity   motivation''" and c = "CHR ''R''"
      and u = "''ace / Ethnicity   motivation''" and ws = "''  ''" and a = "'' ''" and b = "[]"
      and core = "''Race / Ethnicity motivation''"]
  have year: "''2005'' \<notin> set years_2013_2020"
    by (simp add: years_2013_2020_def)
  have ok: "str_accessor_ok ''bias motivation'' (?df\<lparr>df_columns := columns_2004_2012\<rparr>)"
    by (simp add: str_accessor_ok_def column_values_def columns_2004_2012_def is_str_def)
  from th [THEN conjunct2, THEN conjunct1] year ok
  have general: "clean_dataframe ?df ''2005'' =
      Inr \<lparr>df_columns = columns_2004_2012, df_rows = map clean_row (df_rows ?df)\<rparr>"
    by simp
  have steps: "re_sub_runs is_digit_or_colon [] ''3:  Race / Ethnicity   motivation''
       = ''  Race / Ethnicity   motivation''
     \<and> re_sub_runs is_space '' '' (''  '' @ ''Race / Ethnicity   motivation'')
       = '' '' @ re_sub_runs is_space '' '' ''Race / Ethnicity   motivation''
     \<and> re_sub_runs is_space '' '' (CHR ''R'' # ''ace / Ethnicity   motivation'')
       = CHR ''R'' # re_sub_runs is_space '' '' ''ace / Ethnicity   motivation''
     \<and> py_strip ('' '' @ ''Race / Ethnicity motivation'' @ []) = ''Race / Ethnicity motivation''"
    using th [THEN conjunct2, THEN conjunct2, THEN conjunct2, THEN conjunct2, THEN conjunct2,
        THEN conjunct2, THEN conjunct2, THEN conjunct2]
    by (simp add: is_space_def is_digit_or_colon_def)
  show ?thesis
    using general steps by simp
qed

section \<open>The year is not checked\<close>

lemma clean_bias_motivation_ok:
  "str_accessor_ok ''bias motivation'' df \<Longrightarrow>
   \<exists>df'. clean_bias_motivation df = Inr df' \<and> df_columns df' = df_columns df"
  by (simp add: clean_bias_motivation_def Let_def str_accessor_ok_replace df_columns_assign_column)

text \<open>
  C3, as the code has it. \<^verbatim>\<open>_clean_dataframe\<close> rejects no year. In table 5 a year
  outside 2013 to 2020, whether it is a key of \<^verbatim>\<open>YEARWISE_CONFIG\<close> or not, is treated as
  2012 is: a dataframe of nine columns whose label column holds a string gets the layout of
  2004 to 2012, and a dataframe with another number of columns raises \<^verbatim>\<open>ValueError\<close>
  for its column count. In table 8 the year has no influence at all.
\<close>

theorem clean_dataframe_year_unchecked:
  "(year \<notin> set years_2013_2020 \<and> length (df_columns df) = 9 \<and>
      str_accessor_ok ''bias motivation'' (df\<lparr>df_columns := columns_2004_2012\<rparr>) \<longrightarrow>
      (\<exists>df'. clean_dataframe df year = Inr df' \<and> df_columns df' = columns_2004_2012))
   \<and> (year \<notin> set years_2013_2020 \<longrightarrow> clean_dataframe df year = clean_dataframe df ''2012'')
   \<and> (length (df_columns df) \<noteq> 9 \<and> year \<notin> set years_2013_2020 \<longrightarrow>
        clean_dataframe df year = Inl ValueError)
   \<and> clean_dataframe_table8 df year = clean_dataframe_table8 df ''2020''"
proof (intro conjI impI)
  assume a: "year \<notin> set years_2013_2020 \<and> length (df_columns df) = 9 \<and>
      str_accessor_ok ''bias motivation'' (df\<lparr>df_columns := columns_2004_2012\<rparr>)"
  then have "set_columns columns_2004_2012 df = Inr (df\<lparr>df_columns := columns_2004_2012\<rparr>)"
    by (simp add: set_columns_def columns_2004_2012_def)
  then show "\<exists>df'. clean_dataframe df year = Inr df' \<and> df_columns df' = columns_2004_2012"
    using a clean_bias_motivation_ok [of "df\<lparr>df_columns := columns_2004_2012\<rparr>"]
    by (auto simp: clean_dataframe_def)
next
  assume "year \<notin> set years_2013_2020"
  then show "clean_dataframe df year = clean_dataframe df ''2012''"
    by (simp add: clean_dataframe_def years_2013_2020_def)
next
  assume "length (df_columns df) \<noteq> 9 \<and> year \<notin> set years_2013_2020"
  then show "clean_dataframe df year = Inl ValueError"
    by (auto simp: clean_dataframe_def set_columns_def columns_2004_2012_def)
next
  show "clean_dataframe_table8 df year = clean_dataframe_table8 df ''2020''"
    by (simp add: clean_dataframe_table8_def)
qed

theorem clean_dataframe_year_unchecked_witness:
  "clean_dataframe
     \<lparr>df_columns = [''Bias motivation'', ''Total offenses'', ''White'', ''Black'', ''American Indian'',
                    ''Asian'', ''Multiple'', ''Unknown race'', ''Unknown offender''],
      df_rows = [[CStr ''Religion:'', CNum 1, CNum 2, CNum 3, CNum 4, CNum 5, CNum 6, CNum 7, CNaN]]\<rparr> ''2003''
   = clean_dataframe
     \<lparr>df_columns = [''Bias motivation'', ''Total offenses'', ''White'', ''Black'', ''American Indian'',
                    ''Asian'', ''Multiple'', ''Unknown race'', ''Unknown offender''],
      df_rows = [[CStr ''Religion:'', CNum 1, CNum 2, CNum 3, CNum 4, CNum 5, CNum 6, CNum 7, CNaN]]\<rparr> ''2012''
   \<and> (case clean_dataframe
     \<lparr>df_columns = [''Bias motivation'', ''Total offenses'', ''White'', ''Black'', ''American Indian'',
                    ''Asian'', ''Multiple'', ''Unknown race'', ''Unknown offender''],
      df_rows = [[CStr ''Religion:'', CNum 1, CNum 2, CNum 3, CNum 4, CNum 5, CNum 6, CNum 7, CNaN]]\<rparr> ''2003''
      of Inl e \<Rightarrow> [] | Inr df' \<Rightarrow> df_columns df') = columns_2004_2012
   \<and> clean_dataframe
     \<lparr>df_columns = [''Bias motivation'', ''Total offenses''],
      df_rows = [[CStr ''Religion:'', CNum 1]]\<rparr> ''2003'' = Inl ValueError"
proof -
  let ?df = "\<lparr>df_columns = [''Bias motivation'', ''Total offenses'', ''White'', ''Black'', ''American Indian'',
                    ''Asian'', ''Multiple'', ''Unknown race'', ''Unknown offender''],
      df_rows = [[CStr ''Religion:'', CNum 1, CNum 2, CNum 3, CNum 4, CNum 5, CNum 6, CNum 7, CNaN]]\<rparr>"
  let ?small = "\<lparr>df_columns = [''Bias motivation'', ''Total offenses''],
      df_rows = [[CStr ''Religion:'', CNum 1]]\<rparr>"
  have year: "''2003'' \<notin> set years_2013_2020"
    by (simp add: years_2013_2020_def)
  have ok: "str_accessor_ok ''bias motivation'' (?df\<lparr>df_columns := columns_2004_2012\<rparr>)"
    by (simp add: str_accessor_ok_def column_values_def columns_2004_2012_def is_str_def)
  note th = clean_dataframe_year_unchecked [of "''2003''" ?df]
  from th [THEN conjunct1] year ok
  have "\<exists>df'. clean_dataframe ?df ''2003'' = Inr df' \<and> df_columns df' = columns_2004_2012"
    by simp
  then obtain df' where
    r: "clean_dataframe ?df ''2003'' = Inr df'" and c: "df_columns df' = columns_2004_2012"
    by blast
  from th [THEN conjunct2, THEN conjunct1] year
  have same: "clean_dataframe ?df ''2003'' = clean_dataframe ?df ''2012''"
    by simp
  from clean_dataframe_year_unchecked [of "''2003''" ?small, THEN conjunct2, THEN conjunct2,
      THEN conjunct1] year
  have err: "clean_dataframe ?small ''2003'' = Inl ValueError"
    by simp
  have cols: "(case clean_dataframe ?df ''2003'' of Inl e \<Rightarrow> [] | Inr df' \<Rightarrow> df_columns df') =
      columns_2004_2012"
    by (simp add: r c)
  show ?thesis
    using same err cols by blast
qed

text \<open>
  The claim as it is written fails at the year \<^verbatim>\<open>'1999'\<close>, which \<^verbatim>\<open>YEARWISE_CONFIG\<close>
  does not list: both scripts return a dataframe with a column layout.
\<close>

theorem clean_dataframe_unknown_year_counterexample:
  "''1999'' \<notin> set yearwise_config_years
   \<and> clean_dataframe
     \<lparr>df_columns = [''Bias motivation'', ''Total offenses'', ''White'', ''Black'', ''American Indian'',
                    ''Asian'', ''Multiple'', ''Unknown race'', ''Unknown offender''],
      df_rows = [[CStr ''Religion:'', CNum 1, CNum 2, CNum 3, CNum 4, CNum 5, CNum 6, CNum 7, CNaN]]\<rparr> ''1999''
   = Inr \<lparr>df_columns =
            [''bias motivation'', ''total offenses'', ''white'',
             ''black or african american'', ''american indian or alaska native'',
             ''asian or pacific islander'', ''multiple races'', ''unknown race'',
             ''unknown offender''],
          df_rows = [[CStr ''Religion'', CNum 1, CNum 2, CNum 3, CNum 4, CNum 5, CNum 6, CNum 7, CNaN]]\<rparr>
   \<and> clean_dataframe_table8
     \<lparr>df_columns = [''Bias motivation'', ''Total'', ''Individual'', ''Business'', ''Government'',
                    ''Religious'', ''Society'', ''Other''],
      df_rows = [[CStr ''Religion:'', CNum 1, CNum 2, CNum 3, CNum 4, CNum 5, CNum 6, CNum 7]]\<rparr> ''1999''
   = Inr \<lparr>df_columns =
            [''bias motivation'', ''total incidents'', ''individual'', ''business'', ''government'',
             ''religious organization'', ''society'', ''other/unknown/multiple''],
          df_rows = [[CStr ''Religion'', CNum 1, CNum 2, CNum 3, CNum 4, CNum 5, CNum 6, CNum 7]]\<rparr>"
  by (simp add: yearwise_config_years_def clean_dataframe_def clean_dataframe_table8_def set_columns_def
       years_2013_2020_def columns_2004_2012_def table8_columns_def clean_bias_motivation_def
       assign_column_def series_replace_def str_strip_def str_accessor_ok_def column_values_def
       is_str_def py_strip_def is_space_def is_digit_or_colon_def)

section \<open>The templates are not written\<close>

lemma unchanged_below_iff: "unchanged_below n s s' \<longleftrightarrow> (\<forall>a<n. objects s' a = objects s a)"
  by (auto simp: unchanged_below_def list_all_iff)

lemma allocated_iff:
  "allocated s cfg \<longleftrightarrow>
     (\<forall>ka \<in> set (populationType cfg). snd ka < lim s) \<and> (\<forall>ka \<in> set (pvs cfg). snd ka < lim s)"
  by (simp add: allocated_def list_all_iff)

lemma allocated_mono: "allocated s cfg \<Longrightarrow> lim s \<le> lim s' \<Longrightarrow> allocated s' cfg"
  by (fastforce simp: allocated_iff)

lemma config_contents_frame:
  assumes "allocated s cfg" and "\<forall>a<lim s. objects s' a = objects s a"
  shows "config_contents s' cfg = config_contents s cfg"
  using assms by (auto simp: config_contents_def allocated_iff)

lemma dict_get_contents:
  "dict_get (map (\<lambda>ka. (fst ka, f (snd ka))) xs) k = map_option f (dict_get xs k)"
  by (induction xs) (auto simp: dict_get_def)

lemma dict_get_in_set: "dict_get xs k = Some a \<Longrightarrow> (k, a) \<in> set xs"
  by (simp add: dict_get_def map_of_SomeD)

lemma get_dpv_config_contents: "get_dpv sv (config_contents s cfg) = get_dpv sv cfg"
  by (simp add: get_dpv_def config_contents_def)

lemma pvs_lookup_config_contents:
  "pvs_lookup (config_contents s cfg) bm =
     (case pvs_lookup cfg bm of Inl e \<Rightarrow> Inl e | Inr kv \<Rightarrow> Inr (objects s kv))"
  by (auto simp: pvs_lookup_def config_contents_def dict_get_contents split: pyval.splits option.splits)

lemma pvs_lookup_allocated:
  "allocated s cfg \<Longrightarrow> pvs_lookup cfg bm = Inr kv \<Longrightarrow> kv < lim s"
  by (auto simp: pvs_lookup_def allocated_iff split: pyval.splits option.splits dest!: dict_get_in_set)

lemma copy_templates_in_store_spec:
  "copy_templates_in_store cfg cols s = (s1, r) \<Longrightarrow>
   lim s \<le> lim s1 \<and> (\<forall>a<lim s. objects s1 a = objects s a) \<and>
   (\<forall>addrs. r = Inr addrs \<longrightarrow> addrs = [lim s..<lim s1]) \<and>
   (allocated s cfg \<longrightarrow>
      copy_templates (config_contents s cfg) cols = read_statvars s1 r)"
proof (induction cols arbitrary: s s1 r)
  case Nil
  then show ?case by (auto simp: read_statvars_def)
next
  case (Cons c cs)
  show ?case
  proof (cases "dict_get (populationType cfg) c")
    case None
    then show ?thesis using Cons.prems
      by (auto simp: config_contents_def dict_get_contents read_statvars_def)
  next
    case (Some t)
    define s0 where "s0 = \<lparr>objects = (objects s)(lim s := objects s t), lim = Suc (lim s)\<rparr>"
    obtain s2 r2 where rec: "copy_templates_in_store cfg cs s0 = (s2, r2)"
      by (cases "copy_templates_in_store cfg cs s0") auto
    from Cons.prems Some rec have s1: "s1 = s2"
      and r: "r = (case r2 of Inl e \<Rightarrow> Inl e | Inr l \<Rightarrow> Inr (lim s # l))"
      by (auto simp: store_alloc_def s0_def split: sum.splits)
    note IH = Cons.IH [OF rec]
    have lim0: "lim s0 = Suc (lim s)" by (simp add: s0_def)
    have le: "lim s \<le> lim s1" using IH lim0 s1 by simp
    have fr: "\<forall>a<lim s. objects s1 a = objects s a"
      using IH lim0 s1 by (auto simp: s0_def)
    have new: "objects s1 (lim s) = objects s t"
      using IH lim0 s1 by (auto simp: s0_def)
    have addrs: "\<forall>addrs. r = Inr addrs \<longrightarrow> addrs = [lim s..<lim s1]"
      using IH lim0 s1 r by (auto simp: upt_conv_Cons split: sum.splits)
    have contents: "copy_templates (config_contents s cfg) (c # cs) = read_statvars s1 r"
      if al: "allocated s cfg"
    proof -
      have "allocated s0 cfg" using al lim0 by (auto intro: allocated_mono)
      moreover have "config_contents s0 cfg = config_contents s cfg"
        using al by (intro config_contents_frame) (auto simp: s0_def)
      ultimately have "copy_templates (config_contents s cfg) cs = read_statvars s2 r2"
        using IH by simp
      moreover have "dict_get (populationType (config_contents s cfg)) c = Some (objects s t)"
        using Some by (simp add: config_contents_def dict_get_contents)
      ultimately show ?thesis using r s1 new by (auto simp: read_statvars_def split: sum.splits)
    qed
    show ?thesis using le fr addrs contents by blast
  qed
qed

lemma update_statvars_in_store_spec:
  "distinct ds \<Longrightarrow> kv \<notin> set ds \<Longrightarrow>
   update_statvars_in_store ds kv s =
     s\<lparr>objects := (\<lambda>a. if a \<in> set ds then dict_update (objects s a) (objects s kv) else objects s a)\<rparr>"
proof (induction ds arbitrary: s)
  case Nil
  then show ?case by simp
next
  case (Cons d ds)
  then show ?case by (auto simp: store_put_def fun_eq_iff)
qed

lemma update_statvar_dcids_in_store_spec:
  "distinct ds \<Longrightarrow>
   update_statvar_dcids_in_store gen ds cfg s =
     s\<lparr>objects := (\<lambda>a. if a \<in> set ds
          then dict_set (objects s a) ''Node'' (PStr (gen (objects s a) (get_dpv (objects s a) cfg)))
          else objects s a)\<rparr>"
proof (induction ds arbitrary: s)
  case Nil
  then show ?case by simp
next
  case (Cons d ds)
  then show ?case by (auto simp: store_put_def fun_eq_iff)
qed

lemma write_output_csv_row_in_store_spec:
  assumes al: "allocated s cfg"
    and run: "write_output_csv_row_in_store gen cfg cols crime s w = (s', w', r)"
  shows "lim s \<le> lim s' \<and> (\<forall>a<lim s. objects s' a = objects s a) \<and>
         (\<forall>addrs. r = Inr addrs \<longrightarrow> addrs = [lim s..<lim s']) \<and>
         write_output_csv_row gen (config_contents s cfg) cols crime w = (w', read_statvars s' r)"
proof (cases "dict_get crime ''bias motivation''")
  case None
  then show ?thesis using run
    by (auto simp: write_output_csv_row_in_store_def write_output_csv_row_def read_statvars_def)
next
  case (Some bm)
  show ?thesis
  proof (cases "pvs_lookup cfg bm")
    case (Inl e)
    then show ?thesis using run Some
      by (auto simp: write_output_csv_row_in_store_def write_output_csv_row_def read_statvars_def
          pvs_lookup_config_contents)
  next
    case (Inr kv)
    have kv: "kv < lim s" using pvs_lookup_allocated [OF al Inr] .
    have pkv: "pvs_lookup (config_contents s cfg) bm = Inr (objects s kv)"
      using Inr by (simp add: pvs_lookup_config_contents)
    obtain s1 r1 where copy: "copy_templates_in_store cfg cols s = (s1, r1)"
      by (cases "copy_templates_in_store cfg cols s") auto
    note c = copy_templates_in_store_spec [OF copy]
    have pure_copy: "copy_templates (config_contents s cfg) cols = read_statvars s1 r1"
      using c al by simp
    show ?thesis
    proof (cases r1)
      case (Inl e)
      then show ?thesis using run Some Inr copy c pkv pure_copy
        by (auto simp: write_output_csv_row_in_store_def write_output_csv_row_def read_statvars_def)
    next
      case r1: (Inr svl)
      have svl: "svl = [lim s..<lim s1]" using c r1 by simp
      have dist: "distinct svl" and notin: "kv \<notin> set svl" using svl kv by auto
      define s2 where "s2 = update_statvars_in_store svl kv s1"
      define s3 where "s3 = update_statvar_dcids_in_store gen svl cfg s2"
      have s2: "s2 = s1\<lparr>objects := (\<lambda>a. if a \<in> set svl
                  then dict_update (objects s1 a) (objects s1 kv) else objects s1 a)\<rparr>"
        unfolding s2_def by (rule update_statvars_in_store_spec [OF dist notin])
      have s3: "s3 = s2\<lparr>objects := (\<lambda>a. if a \<in> set svl
          then dict_set (objects s2 a) ''Node'' (PStr (gen (objects s2 a) (get_dpv (objects s2 a) cfg)))
          else objects s2 a)\<rparr>"
        unfolding s3_def by (rule update_statvar_dcids_in_store_spec [OF dist])
      have lim3: "lim s3 = lim s1" by (simp add: s3 s2)
      have fr3: "\<forall>a<lim s. objects s3 a = objects s a"
        using c svl by (auto simp: s3 s2)
      have kv1: "objects s1 kv = objects s kv" using c kv by simp
      have contents: "map (objects s3) svl =
          update_statvar_dcids gen (update_statvars (map (objects s1) svl) (objects s kv))
            (config_contents s cfg)"
        by (simp add: s3 s2 update_statvar_dcids_def update_statvars_def kv1 get_dpv_config_contents)
      obtain w1 u where wr: "write_rows crime cols (map (objects s3) svl) w = (w1, u)"
        by (cases "write_rows crime cols (map (objects s3) svl) w") auto
      from run Some Inr copy r1 wr have res: "s' = s3" "w' = w1"
          "r = (case u of Inl e \<Rightarrow> Inl e | Inr x \<Rightarrow> Inr svl)"
        by (auto simp: write_output_csv_row_in_store_def Let_def s2_def s3_def split: sum.splits)
      have pure: "write_output_csv_row gen (config_contents s cfg) cols crime w = (w', read_statvars s' r)"
        using Some pkv pure_copy r1 wr res contents
        by (auto simp: write_output_csv_row_def read_statvars_def Let_def split: sum.splits)
      show ?thesis using pure res lim3 fr3 c svl by (auto split: sum.splits)
    qed
  qed
qed

lemma upt_split: "a \<le> b \<Longrightarrow> b \<le> c \<Longrightarrow> [a..<b] @ [b..<c] = [a..<c]"
  by (induction c) (auto simp: le_Suc_eq)

lemma write_output_csv_loop_in_store_spec:
  "allocated s cfg \<Longrightarrow> \<forall>a \<in> set acc. a < lim s \<Longrightarrow>
   write_output_csv_loop_in_store gen cfg cols crimes s w acc = (s', w', r) \<Longrightarrow>
   lim s \<le> lim s' \<and> (\<forall>a<lim s. objects s' a = objects s a) \<and>
   (\<forall>addrs. r = Inr addrs \<longrightarrow> addrs = acc @ [lim s..<lim s']) \<and>
   write_output_csv_loop gen (config_contents s cfg) cols crimes w (map (objects s) acc) =
     (w', read_statvars s' r)"
proof (induction crimes arbitrary: s w acc)
  case Nil
  then show ?case by (auto simp: read_statvars_def)
next
  case (Cons crime crimes)
  obtain s1 w1 r1 where row: "write_output_csv_row_in_store gen cfg cols crime s w = (s1, w1, r1)"
    by (cases "write_output_csv_row_in_store gen cfg cols crime s w") auto
  from write_output_csv_row_in_store_spec [OF Cons.prems(1) row]
  have le1: "lim s \<le> lim s1"
    and fr1: "\<forall>a<lim s. objects s1 a = objects s a"
    and ad1: "\<forall>addrs. r1 = Inr addrs \<longrightarrow> addrs = [lim s..<lim s1]"
    and pure1: "write_output_csv_row gen (config_contents s cfg) cols crime w = (w1, read_statvars s1 r1)"
    by blast+
  show ?case
  proof (cases r1)
    case (Inl e)
    have "s' = s1" "w' = w1" "r = Inl e"
      using Cons.prems(3) row Inl by simp_all
    then show ?thesis using le1 fr1 pure1 Inl by (simp add: read_statvars_def)
  next
    case (Inr svl)
    have svl: "svl = [lim s..<lim s1]" using ad1 Inr by simp
    from Cons.prems(3) row Inr
    have rest: "write_output_csv_loop_in_store gen cfg cols crimes s1 w1 (acc @ svl) = (s', w', r)"
      by simp
    have al1: "allocated s1 cfg" using Cons.prems(1) le1 by (rule allocated_mono)
    have acc1: "\<forall>a \<in> set (acc @ svl). a < lim s1" using Cons.prems(2) le1 svl by auto
    from Cons.IH [OF al1 acc1 rest]
    have le2: "lim s1 \<le> lim s'"
      and fr2: "\<forall>a<lim s1. objects s' a = objects s1 a"
      and ad2: "\<forall>addrs. r = Inr addrs \<longrightarrow> addrs = (acc @ svl) @ [lim s1..<lim s']"
      and pure2: "write_output_csv_loop gen (config_contents s1 cfg) cols crimes w1
                    (map (objects s1) (acc @ svl)) = (w', read_statvars s' r)"
      by blast+
    have cc: "config_contents s1 cfg = config_contents s cfg"
      by (rule config_contents_frame [OF Cons.prems(1) fr1])
    have accs: "map (objects s1) acc = map (objects s) acc"
      using Cons.prems(2) fr1 by simp
    have "write_output_csv_loop gen (config_contents s cfg) cols (crime # crimes) w (map (objects s) acc)
          = write_output_csv_loop gen (config_contents s cfg) cols crimes w1
              (map (objects s) acc @ map (objects s1) svl)"
      by (simp add: pure1 Inr read_statvars_def)
    also have "\<dots> = write_output_csv_loop gen (config_contents s1 cfg) cols crimes w1
                    (map (objects s1) (acc @ svl))"
      by (simp only: cc accs map_append)
    also have "\<dots> = (w', read_statvars s' r)"
      by (rule pure2)
    finally have pure: "write_output_csv_loop gen (config_contents s cfg) cols (crime # crimes) w
        (map (objects s) acc) = (w', read_statvars s' r)" .
    have "(acc @ svl) @ [lim s1..<lim s'] = acc @ [lim s..<lim s']"
      using upt_split [OF le1 le2] svl by simp
    then have addrs: "\<forall>addrs. r = Inr addrs \<longrightarrow> addrs = acc @ [lim s..<lim s']"
      using ad2 by simp
    have fr: "\<forall>a<lim s. objects s' a = objects s a"
    proof (intro allI impI)
      fix a assume "a < lim s"
      then have "a < lim s1" using le1 by simp
      then show "objects s' a = objects s a" using fr1 fr2 \<open>a < lim s\<close> by simp
    qed
    have "lim s \<le> lim s'" using le1 le2 by simp
    then show ?thesis using pure addrs fr by blast
  qed
qed

text \<open>
  C7. The configuration's templates and property/value dicts are objects made before the
  run. Whatever the rows are and however the run ends, \<^verbatim>\<open>_write_output_csv\<close> (of table 5
  and of table 8) writes to no object that was there before it, so the configuration reads
  the same after the run as before; the statvars it returns are the objects it made, each
  a new object of its own; and its rows and statvars are those of the run in which every
  row starts from the contents the templates had at the beginning.
\<close>

theorem templates_not_mutated:
  assumes "allocated s cfg"
  shows "(write_output_csv_in_store gen reader s writer cfg = (s', writer', r) \<longrightarrow>
            lim s \<le> lim s' \<and> unchanged_below (lim s) s s' \<and>
            config_contents s' cfg = config_contents s cfg \<and>
            (\<forall>statvars. r = Inr statvars \<longrightarrow> statvars = [lim s..<lim s']) \<and>
            write_output_csv gen reader writer (config_contents s cfg) = (writer', read_statvars s' r))
       \<and> (write_output_csv_table8_in_store gen reader s writer cfg = (s', writer', r) \<longrightarrow>
            lim s \<le> lim s' \<and> unchanged_below (lim s) s s' \<and>
            config_contents s' cfg = config_contents s cfg \<and>
            (\<forall>statvars. r = Inr statvars \<longrightarrow> statvars = [lim s..<lim s']) \<and>
            write_output_csv_table8 gen reader writer (config_contents s cfg) =
              (writer', read_statvars s' r))"
proof (rule conjI; rule impI)
  assume run: "write_output_csv_in_store gen reader s writer cfg = (s', writer', r)"
  show "lim s \<le> lim s' \<and> unchanged_below (lim s) s s' \<and>
            config_contents s' cfg = config_contents s cfg \<and>
            (\<forall>statvars. r = Inr statvars \<longrightarrow> statvars = [lim s..<lim s']) \<and>
            write_output_csv gen reader writer (config_contents s cfg) = (writer', read_statvars s' r)"
  proof (cases "list_remove ''bias motivation'' (fieldnames reader)")
    case (Inl e)
    then show ?thesis using run
      by (auto simp: write_output_csv_in_store_def write_output_csv_def read_statvars_def
          unchanged_below_iff)
  next
    case c1: (Inr columns1)
    show ?thesis
    proof (cases "list_remove ''Year'' columns1")
      case (Inl e)
      then show ?thesis using run c1
        by (auto simp: write_output_csv_in_store_def write_output_csv_def read_statvars_def
            unchanged_below_iff)
    next
      case (Inr cols)
      have loop: "write_output_csv_loop_in_store gen cfg cols (rows reader) s writer [] = (s', writer', r)"
        using run c1 Inr by (simp add: write_output_csv_in_store_def)
      from write_output_csv_loop_in_store_spec [OF assms _ loop]
      have le: "lim s \<le> lim s'"
        and fr: "\<forall>a<lim s. objects s' a = objects s a"
        and ad: "\<forall>addrs. r = Inr addrs \<longrightarrow> addrs = [] @ [lim s..<lim s']"
        and pure: "write_output_csv_loop gen (config_contents s cfg) cols (rows reader) writer
                     (map (objects s) []) = (writer', read_statvars s' r)"
        by simp_all
      have "write_output_csv gen reader writer (config_contents s cfg) = (writer', read_statvars s' r)"
        using pure c1 Inr by (simp add: write_output_csv_def)
      then show ?thesis
        using le fr ad config_contents_frame [OF assms fr] by (simp add: unchanged_below_iff)
    qed
  qed
next
  assume run: "write_output_csv_table8_in_store gen reader s writer cfg = (s', writer', r)"
  then have loop: "write_output_csv_loop_in_store gen cfg table8_columns (rows reader) s writer [] =
      (s', writer', r)"
    by (simp add: write_output_csv_table8_in_store_def)
  from write_output_csv_loop_in_store_spec [OF assms _ loop]
  have le: "lim s \<le> lim s'"
    and fr: "\<forall>a<lim s. objects s' a = objects s a"
    and ad: "\<forall>addrs. r = Inr addrs \<longrightarrow> addrs = [] @ [lim s..<lim s']"
    and pure: "write_output_csv_loop gen (config_contents s cfg) table8_columns (rows reader) writer
                 (map (objects s) []) = (writer', read_statvars s' r)"
    by simp_all
  have "write_output_csv_table8 gen reader writer (config_contents s cfg) = (writer', read_statvars s' r)"
    using pure by (simp add: write_output_csv_table8_def)
  then show "lim s \<le> lim s' \<and> unchanged_below (lim s) s s' \<and>
            config_contents s' cfg = config_contents s cfg \<and>
            (\<forall>statvars. r = Inr statvars \<longrightarrow> statvars = [lim s..<lim s']) \<and>
            write_output_csv_table8 gen reader writer (config_contents s cfg) =
              (writer', read_statvars s' r)"
    using le fr ad config_contents_frame [OF assms fr] by (simp add: unchanged_below_iff)
qed

theorem templates_not_mutated_witness:
  "map (objects (fst (write_output_csv_in_store sample_dcid (example_reader ''2019'') example_store []
                        example_config_in_store))) [0, 1, 2, 3]
     = [[(''offenderRace'', PStr ''White'')], [(''offenderRace'', PStr ''Asian'')],
        [(''biasMotivation'', PStr ''race''), (''targetedRace'', PStr ''Any'')],
        [(''biasMotivation'', PStr ''religion'')]]
   \<and> snd (snd (write_output_csv_in_store sample_dcid (example_reader ''2019'') example_store []
                   example_config_in_store)) = Inr [4, 5, 6, 7]
   \<and> map (objects (fst (write_output_csv_in_store sample_dcid (example_reader ''2019'') example_store []
                          example_config_in_store))) [4, 5, 6, 7]
     = [[(''offenderRace'', PStr ''White''), (''biasMotivation'', PStr ''race''),
         (''targetedRace'', PStr ''Any''), (''Node'', PStr ''offenderRace=White;biasMotivation=race;'')],
        [(''offenderRace'', PStr ''Asian''), (''biasMotivation'', PStr ''race''),
         (''targetedRace'', PStr ''Any''), (''Node'', PStr ''offenderRace=Asian;biasMotivation=race;'')],
        [(''offenderRace'', PStr ''White''), (''biasMotivation'', PStr ''religion''),
         (''Node'', PStr ''offenderRace=White;biasMotivation=religion;'')],
        [(''offenderRace'', PStr ''Asian''), (''biasMotivation'', PStr ''religion''),
         (''Node'', PStr ''offenderRace=Asian;biasMotivation=religion;'')]]"
proof -
  have al: "allocated example_store example_config_in_store"
    by (simp add: allocated_def example_store_def example_config_in_store_def)
  obtain s' w' r where run:
    "write_output_csv_in_store sample_dcid (example_reader ''2019'') example_store []
       example_config_in_store = (s', w', r)"
    by (rule prod_cases3)
  from templates_not_mutated [OF al, of sample_dcid "example_reader ''2019''" "[]" s' w' r] run
  have "unchanged_below (lim example_store) example_store s'"
    by blast
  then have "\<forall>a<4. objects s' a = objects example_store a"
    by (simp add: unchanged_below_iff example_store_def)
  then have "map (objects s') [0, 1, 2, 3] = map (objects example_store) [0, 1, 2, 3]"
    by simp
  then have old: "map (objects s') [0, 1, 2, 3] =
       [[(''offenderRace'', PStr ''White'')], [(''offenderRace'', PStr ''Asian'')],
        [(''biasMotivation'', PStr ''race''), (''targetedRace'', PStr ''Any'')],
        [(''biasMotivation'', PStr ''religion'')]]"
    by (simp add: example_store_def)
  have new: "snd (snd (write_output_csv_in_store sample_dcid (example_reader ''2019'') example_store []
                   example_config_in_store)) = Inr [4, 5, 6, 7]
   \<and> map (objects (fst (write_output_csv_in_store sample_dcid (example_reader ''2019'') example_store []
                          example_config_in_store))) [4, 5, 6, 7]
     = [[(''offenderRace'', PStr ''White''), (''biasMotivation'', PStr ''race''),
         (''targetedRace'', PStr ''Any''), (''Node'', PStr ''offenderRace=White;biasMotivation=race;'')],
        [(''offenderRace'', PStr ''Asian''), (''biasMotivation'', PStr ''race''),
         (''targetedRace'', PStr ''Any''), (''Node'', PStr ''offenderRace=Asian;biasMotivation=race;'')],
        [(''offenderRace'', PStr ''White''), (''biasMotivation'', PStr ''religion''),
         (''Node'', PStr ''offenderRace=White;biasMotivation=religion;'')],
        [(''offenderRace'', PStr ''Asian''), (''biasMotivation'', PStr ''religion''),
         (''Node'', PStr ''offenderRace=Asian;biasMotivation=religion;'')]]"
    by code_simp
  show ?thesis using old new unfolding run by simp
qed

end
